theory Spec2Isabelle
  imports Main
begin

section \<open>kubectl cordon, uncordon and drain (pkg/kubectl/cmd/drain.go)\<close>

text \<open>
  A shallow embedding of \<^verbatim>\<open>pkg/kubectl/cmd/drain.go\<close>. The receiver
  \<^verbatim>\<open>o *DrainOptions\<close> is a record, written \<open>opts\<close>, that every method takes and
  returns. The API server reached through \<^verbatim>\<open>o.client\<close> is an abstract state
  \<open>'w\<close>: the reading calls (\<^verbatim>\<open>List\<close>, \<^verbatim>\<open>Get\<close>) inspect it, the writing
  calls (\<^verbatim>\<open>Replace\<close>, \<^verbatim>\<open>Delete\<close>) transform it and are logged. A Go
  \<^verbatim>\<open>error\<close> return is an \<open>error option\<close> (\<open>None\<close> is \<^verbatim>\<open>nil\<close>).
  The commands' constructors and \<^verbatim>\<open>SetupDrain\<close>, which parse the command line and
  resolve the node, are not modelled: the methods below start from a resolved
  \<^verbatim>\<open>nodeInfo\<close>.
\<close>

subsection \<open>Values\<close>

text \<open>A Go error: the code of this file never inspects one beyond comparing it with nil.\<close>

datatype error = Error string

text \<open>
  \<^verbatim>\<open>api.Pod\<close>, with the fields this file reads: \<^verbatim>\<open>pod.Name\<close>,
  \<^verbatim>\<open>pod.Namespace\<close> and \<^verbatim>\<open>pod.ObjectMeta.Annotations\<close> (a Go map).
\<close>

record Pod =
  Name :: string
  Namespace :: string
  Annotations :: "string \<rightharpoonup> string"

text \<open>
  \<^verbatim>\<open>api.SerializedReference\<close> and its \<^verbatim>\<open>api.ObjectReference\<close>; the fields
  \<^verbatim>\<open>Namespace\<close> and \<^verbatim>\<open>Name\<close> of the reference carry the prefix \<open>Ref\<close>
  here, since a pod has fields of the same names.
\<close>

record ObjectReference =
  Kind :: string
  RefNamespace :: string
  RefName :: string

record SerializedReference =
  Reference :: ObjectReference

text \<open>
  What a \<^verbatim>\<open>Get\<close> of a ReplicationController, DaemonSet or Job returns beside its
  error: a pointer, of which the code only asks whether it is nil. The object behind it is
  kept as its namespace and name.
\<close>

datatype Controller = Controller string string

text \<open>
  \<^verbatim>\<open>api.Node\<close> with \<^verbatim>\<open>Spec.Unschedulable\<close>, the one field the code reaches
  (by reflection). \<^verbatim>\<open>o.nodeInfo.Object\<close> is a \<^verbatim>\<open>runtime.Object\<close>: a node, or an
  object of another type, on which the reflective field access panics.
\<close>

record NodeSpec =
  Unschedulable :: bool

record Node =
  Spec :: NodeSpec

datatype Object = NodeObject Node | OtherObject string

text \<open>
  \<^verbatim>\<open>resource.Info\<close> with its \<^verbatim>\<open>meta.RESTMapping\<close>: the resource name, the kind
  of \<^verbatim>\<open>Mapping.GroupVersionKind.Kind\<close>, the object's name (\<open>InfoName\<close> for
  \<^verbatim>\<open>o.nodeInfo.Name\<close>) and the object.
\<close>

record RESTMapping =
  Resource :: string
  GroupVersionKind_Kind :: string

record Info =
  Mapping :: RESTMapping
  InfoName :: string
  Object :: Object

text \<open>\<^verbatim>\<open>api.DeleteOptions\<close>: the grace period is a pointer, nil when not set.\<close>

record DeleteOptions =
  DeleteGracePeriodSeconds :: "int option"

text \<open>
  What is written to \<^verbatim>\<open>o.out\<close>: a call of \<^verbatim>\<open>cmdutil.PrintSuccess\<close> with its
  resource, name and operation, or the text of a \<^verbatim>\<open>fmt.Fprintf\<close>.
\<close>

datatype message = PrintSuccess string string string | Fprintf string

text \<open>
  The writing requests sent to the API server, logged in the order they are issued:
  \<^verbatim>\<open>helper.Replace(namespace, name, overwrite, obj)\<close> of the helper built for a mapping,
  and \<^verbatim>\<open>client.Pods(namespace).Delete(name, options)\<close>.
\<close>

datatype request =
  ReplaceRequest RESTMapping string string bool Object
| DeleteRequest string string DeleteOptions

text \<open>A function that returns normally, or panics.\<close>

datatype 'a outcome = Return 'a | Panic

subsection \<open>Collaborators\<close>

text \<open>
  \<^verbatim>\<open>client.Client\<close> (with \<^verbatim>\<open>resource.Helper\<close>, which wraps it), as the responses
  of an API server in state \<open>'w\<close>. A \<^verbatim>\<open>Get\<close> returns a pointer and an error, as in Go;
  a writing call returns its error and the server's next state.
\<close>

record 'w Client =
  Pods_List :: "'w \<Rightarrow> string \<Rightarrow> string \<Rightarrow> error + Pod list"
  Pods_Delete :: "'w \<Rightarrow> string \<Rightarrow> string \<Rightarrow> DeleteOptions \<Rightarrow> error option \<times> 'w"
  ReplicationControllers_Get :: "'w \<Rightarrow> string \<Rightarrow> string \<Rightarrow> Controller option \<times> error option"
  DaemonSets_Get :: "'w \<Rightarrow> string \<Rightarrow> string \<Rightarrow> Controller option \<times> error option"
  Jobs_Get :: "'w \<Rightarrow> string \<Rightarrow> string \<Rightarrow> Controller option \<times> error option"
  Helper_Replace :: "'w \<Rightarrow> RESTMapping \<Rightarrow> string \<Rightarrow> string \<Rightarrow> bool \<Rightarrow> Object \<Rightarrow> error option \<times> 'w"

text \<open>
  \<^verbatim>\<open>cmdutil.Factory\<close>: \<^verbatim>\<open>DefaultNamespace()\<close> returns a namespace, a flag and an
  error; \<^verbatim>\<open>Decoder(toInternal)\<close> returns the decoder that
  \<^verbatim>\<open>runtime.DecodeInto\<close> runs on the bytes of an annotation.
\<close>

record Factory =
  DefaultNamespace :: "string \<times> bool \<times> error option"
  Decoder :: "bool \<Rightarrow> string \<Rightarrow> error + SerializedReference"

text \<open>
  \<^verbatim>\<open>DrainOptions\<close>. \<open>server\<close> is the state of the API server behind
  \<^verbatim>\<open>o.client\<close> and \<open>requests\<close> the writing requests sent to it so far;
  \<open>out\<close> is what has been written to \<^verbatim>\<open>o.out\<close>. The fields
  \<^verbatim>\<open>mapper\<close> and \<^verbatim>\<open>typer\<close> are only handed to the printer and are left out.
\<close>

record 'w DrainOptions =
  client :: "'w Client"
  factory :: Factory
  Force :: bool
  GracePeriodSeconds :: int
  nodeInfo :: Info
  out :: "message list"
  server :: 'w
  requests :: "request list"

subsection \<open>Constants and helpers of other packages\<close>

text \<open>
  Modelled from the spec: the annotation key of the mirror marker,
  \<^verbatim>\<open>types.ConfigMirrorAnnotationKey\<close>, is declared in pkg/kubelet/types, which is not
  among the sources. The string is the one Kubernetes uses; the theorems on the code hold
  for any value of it, and only the evaluations on the example cluster unfold it.
\<close>

definition ConfigMirrorAnnotationKey :: string where
  "ConfigMirrorAnnotationKey = ''kubernetes.io/config.mirror''"

text \<open>
  Modelled from the spec: the annotation key of the serialized owner reference,
  \<^verbatim>\<open>controller.CreatedByAnnotation\<close>, is declared in pkg/controller, which is not
  among the sources. The string is the one Kubernetes uses; the theorems on the code hold
  for any value of it.
\<close>

definition CreatedByAnnotation :: string where
  "CreatedByAnnotation = ''kubernetes.io/created-by''"

text \<open>
  Modelled from the spec: \<^verbatim>\<open>api.NamespaceAll\<close>, the namespace argument that lists
  over every namespace, is declared in pkg/api, which is not among the sources. The
  theorems on the code hold for any value of it.
\<close>

definition NamespaceAll :: string where
  "NamespaceAll = ''''"

text \<open>\<^verbatim>\<open>runtime.DecodeInto(decoder, data, &sr)\<close>: the error, or the decoded reference.\<close>

definition DecodeInto ::
  "(string \<Rightarrow> error + SerializedReference) \<Rightarrow> string \<Rightarrow> error + SerializedReference" where
  "DecodeInto d data = d data"

text \<open>\<^verbatim>\<open>strings.Join(elems, sep)\<close>.\<close>

fun Join :: "string list \<Rightarrow> string \<Rightarrow> string" where
  "Join [] sep = []"
| "Join [x] sep = x"
| "Join (x # y # ys) sep = x @ sep @ Join (y # ys) sep"

subsection \<open>already and changed\<close>

definition already :: "bool \<Rightarrow> string" where
  "already desired = (if desired then ''already cordoned'' else ''already uncordoned'')"

definition changed :: "bool \<Rightarrow> string" where
  "changed desired = (if desired then ''cordoned'' else ''uncordoned'')"

subsection \<open>RunCordonOrUncordon\<close>

text \<open>
  Lines 282 to 306. \<^verbatim>\<open>unsched.SetBool(desired)\<close> writes through the pointer
  \<^verbatim>\<open>o.nodeInfo.Object\<close> before \<^verbatim>\<open>Replace\<close> is called, so the object of the
  returned state holds the desired value whether or not the request succeeds.
\<close>

definition RunCordonOrUncordon ::
  "bool \<Rightarrow> 'w DrainOptions \<Rightarrow> error option outcome \<times> 'w DrainOptions" where
  "RunCordonOrUncordon desired opts =
    (let (cmdNamespace, _, err) = DefaultNamespace (factory opts) in
     if err \<noteq> None then (Return err, opts)
     else if GroupVersionKind_Kind (Mapping (nodeInfo opts)) = ''Node'' then
       (case Object (nodeInfo opts) of
          OtherObject _ \<Rightarrow> (Panic, opts)
        | NodeObject node \<Rightarrow>
            if Unschedulable (Spec node) = desired then
              (Return None,
               opts\<lparr>out := out opts @
                 [PrintSuccess (Resource (Mapping (nodeInfo opts))) (InfoName (nodeInfo opts))
                    (already desired)]\<rparr>)
            else
              (let obj = NodeObject (node\<lparr>Spec := (Spec node)\<lparr>Unschedulable := desired\<rparr>\<rparr>);
                   o1 = opts\<lparr>nodeInfo := (nodeInfo opts)\<lparr>Object := obj\<rparr>\<rparr>;
                   (err, w) = Helper_Replace (client o1) (server o1) (Mapping (nodeInfo o1))
                                cmdNamespace (InfoName (nodeInfo o1)) True obj;
                   o2 = o1\<lparr>server := w,
                           requests := requests o1 @
                             [ReplaceRequest (Mapping (nodeInfo o1)) cmdNamespace
                                (InfoName (nodeInfo o1)) True obj]\<rparr>
               in if err \<noteq> None then (Return err, o2)
                  else (Return None,
                        o2\<lparr>out := out o2 @
                          [PrintSuccess (Resource (Mapping (nodeInfo o2))) (InfoName (nodeInfo o2))
                             (changed desired)]\<rparr>)))
     else
       (Return None,
        opts\<lparr>out := out opts @
          [PrintSuccess (Resource (Mapping (nodeInfo opts))) (InfoName (nodeInfo opts)) ''skipped'']\<rparr>))"

subsection \<open>getPodsForDeletion\<close>

text \<open>Lines 201 to 205: the pod has the mirror annotation, and the loop skips it.\<close>

definition isMirror :: "Pod \<Rightarrow> bool" where
  "isMirror pod = (ConfigMirrorAnnotationKey \<in> dom (Annotations pod))"

text \<open>
  Lines 215 to 241: the lookup of the creator the reference names. Only a reference of kind
  ReplicationController, DaemonSet or Job is looked up, and only a lookup that returns no
  error and a pointer that is not nil counts.
\<close>

definition creatorExists :: "'w DrainOptions \<Rightarrow> SerializedReference \<Rightarrow> bool" where
  "creatorExists opts sr =
    (if Kind (Reference sr) = ''ReplicationController'' then
       (let (rc, err) = ReplicationControllers_Get (client opts) (server opts)
                          (RefNamespace (Reference sr)) (RefName (Reference sr))
        in err = None \<and> rc \<noteq> None)
     else if Kind (Reference sr) = ''DaemonSet'' then
       (let (ds, err) = DaemonSets_Get (client opts) (server opts)
                          (RefNamespace (Reference sr)) (RefName (Reference sr))
        in err = None \<and> ds \<noteq> None)
     else if Kind (Reference sr) = ''Job'' then
       (let (job, err) = Jobs_Get (client opts) (server opts)
                           (RefNamespace (Reference sr)) (RefName (Reference sr))
        in err = None \<and> job \<noteq> None)
     else False)"

text \<open>
  Lines 206 to 242: the value of \<^verbatim>\<open>replicated\<close> for a pod that is not a mirror pod, or
  the error of the decoder, on which the function returns.
\<close>

definition replicated :: "'w DrainOptions \<Rightarrow> Pod \<Rightarrow> error + bool" where
  "replicated opts pod =
    (case Annotations pod CreatedByAnnotation of
       None \<Rightarrow> Inr False
     | Some creatorRef \<Rightarrow>
         (case DecodeInto (Decoder (factory opts) True) creatorRef of
            Inl err \<Rightarrow> Inl err
          | Inr sr \<Rightarrow> Inr (creatorExists opts sr)))"

text \<open>
  Lines 200 to 249: the loop over \<^verbatim>\<open>podList.Items\<close>, with the accumulators
  \<^verbatim>\<open>pods\<close> and \<^verbatim>\<open>unreplicatedPodNames\<close>. \<open>Inl\<close> is the return from inside
  the loop (line 213), with the pods collected so far and the decoder's error.
\<close>

fun classifyPods ::
  "'w DrainOptions \<Rightarrow> Pod list \<Rightarrow> Pod list \<Rightarrow> string list
     \<Rightarrow> (Pod list \<times> error) + (Pod list \<times> string list)" where
  "classifyPods opts [] pods unreplicatedPodNames = Inr (pods, unreplicatedPodNames)"
| "classifyPods opts (pod # rest) pods unreplicatedPodNames =
    (if isMirror pod then classifyPods opts rest pods unreplicatedPodNames
     else
       (case replicated opts pod of
          Inl err \<Rightarrow> Inl (pods, err)
        | Inr r \<Rightarrow>
            classifyPods opts rest
              (if r \<or> Force opts then pods @ [pod] else pods)
              (if \<not> r then unreplicatedPodNames @ [Name pod] else unreplicatedPodNames)))"

text \<open>The two messages of lines 254 and 256, for the joined names.\<close>

definition refusal :: "string \<Rightarrow> string" where
  "refusal joined =
    ''refusing to continue due to pods managed by neither a ReplicationController, nor a Job, nor a DaemonSet: ''
      @ joined @ '' (use --force to override)''"

definition warning :: "string \<Rightarrow> string" where
  "warning joined =
    ''WARNING: About to delete these pods managed by neither a ReplicationController, nor a Job, nor a DaemonSet: ''
      @ joined @ [CHR 0x0A]"

text \<open>Lines 192 to 259. The result is the pair the Go function returns, and the state.\<close>

definition getPodsForDeletion ::
  "'w DrainOptions \<Rightarrow> (Pod list \<times> error option) \<times> 'w DrainOptions" where
  "getPodsForDeletion opts =
    (case Pods_List (client opts) (server opts) NamespaceAll (InfoName (nodeInfo opts)) of
       Inl err \<Rightarrow> (([], Some err), opts)
     | Inr items \<Rightarrow>
         (case classifyPods opts items [] [] of
            Inl (pods, err) \<Rightarrow> ((pods, Some err), opts)
          | Inr (pods, unreplicatedPodNames) \<Rightarrow>
              if length unreplicatedPodNames > 0 then
                (let joined = Join unreplicatedPodNames '', '' in
                 if \<not> Force opts then ((pods, Some (Error (refusal joined))), opts)
                 else ((pods, None), opts\<lparr>out := out opts @ [Fprintf (warning joined)]\<rparr>))
              else ((pods, None), opts)))"

subsection \<open>deletePods\<close>

text \<open>Lines 263 to 267: the options of every delete request.\<close>

definition deleteOptions :: "'w DrainOptions \<Rightarrow> DeleteOptions" where
  "deleteOptions opts =
    (if GracePeriodSeconds opts \<ge> 0 then \<lparr>DeleteGracePeriodSeconds = Some (GracePeriodSeconds opts)\<rparr>
     else \<lparr>DeleteGracePeriodSeconds = None\<rparr>)"

text \<open>Lines 269 to 277: the loop, which returns at the first error.\<close>

fun deletePods :: "'w DrainOptions \<Rightarrow> Pod list \<Rightarrow> error option \<times> 'w DrainOptions" where
  "deletePods opts [] = (None, opts)"
| "deletePods opts (pod # rest) =
    (let (err, w) = Pods_Delete (client opts) (server opts) (Namespace pod) (Name pod) (deleteOptions opts);
         o1 = opts\<lparr>server := w,
                 requests := requests opts @
                   [DeleteRequest (Namespace pod) (Name pod) (deleteOptions opts)]\<rparr>
     in if err \<noteq> None then (err, o1)
        else deletePods (o1\<lparr>out := out o1 @ [PrintSuccess ''pod'' (Name pod) ''deleted'']\<rparr>) rest)"

subsection \<open>RunDrain\<close>

text \<open>Lines 172 to 187.\<close>

definition RunDrain :: "'w DrainOptions \<Rightarrow> error option outcome \<times> 'w DrainOptions" where
  "RunDrain opts =
    (case RunCordonOrUncordon True opts of
       (Panic, o1) \<Rightarrow> (Panic, o1)
     | (Return (Some err), o1) \<Rightarrow> (Return (Some err), o1)
     | (Return None, o1) \<Rightarrow>
         (case getPodsForDeletion o1 of
            ((pods, Some err), o2) \<Rightarrow> (Return (Some err), o2)
          | ((pods, None), o2) \<Rightarrow>
              (case deletePods o2 pods of
                 (Some err, o3) \<Rightarrow> (Return (Some err), o3)
               | (None, o3) \<Rightarrow>
                   (Return None,
                    o3\<lparr>out := out o3 @
                      [PrintSuccess ''node'' (InfoName (nodeInfo o3)) ''drained'']\<rparr>))))"

subsection \<open>An example cluster\<close>

text \<open>
  Concrete inputs on which the theorems below are evaluated. The example server's state
  is the list of the writes it has accepted. Its decoder knows two payloads, both
  references to a ReplicationController in namespace default; of the two controllers only
  rc1 exists; any other payload fails to decode. Deleting the pod named stuck fails, and so does replacing the node named
  locked. A second factory fails to give the default namespace.
\<close>

definition exampleDecoder :: "bool \<Rightarrow> string \<Rightarrow> error + SerializedReference" where
  "exampleDecoder toInternal data =
    (if data = ''rc1'' \<or> data = ''rc-gone'' then
       Inr \<lparr>Reference = \<lparr>Kind = ''ReplicationController'', RefNamespace = ''default'',
                          RefName = data\<rparr>\<rparr>
     else Inl (Error ''invalid character''))"

definition exampleFactory :: Factory where
  "exampleFactory = \<lparr>DefaultNamespace = (''default'', False, None), Decoder = exampleDecoder\<rparr>"

definition failingFactory :: Factory where
  "failingFactory =
    \<lparr>DefaultNamespace = ([], False, Some (Error ''no namespace'')), Decoder = exampleDecoder\<rparr>"

definition ownedPod :: Pod where
  "ownedPod = \<lparr>Name = ''web-1'', Namespace = ''default'',
               Annotations = [CreatedByAnnotation \<mapsto> ''rc1'']\<rparr>"

definition stuckPod :: Pod where
  "stuckPod = \<lparr>Name = ''stuck'', Namespace = ''default'',
               Annotations = [CreatedByAnnotation \<mapsto> ''rc1'']\<rparr>"

definition barePod :: Pod where
  "barePod = \<lparr>Name = ''bare'', Namespace = ''default'', Annotations = Map.empty\<rparr>"

definition orphanPod :: Pod where
  "orphanPod = \<lparr>Name = ''orphan'', Namespace = ''default'',
                Annotations = [CreatedByAnnotation \<mapsto> ''rc-gone'']\<rparr>"

definition malformedPod :: Pod where
  "malformedPod = \<lparr>Name = ''broken'', Namespace = ''default'',
                   Annotations = [CreatedByAnnotation \<mapsto> ''{'']\<rparr>"

definition ownedMirrorPod :: Pod where
  "ownedMirrorPod = \<lparr>Name = ''static-web'', Namespace = ''kube-system'',
                     Annotations = [ConfigMirrorAnnotationKey \<mapsto> ''file'',
                                    CreatedByAnnotation \<mapsto> ''rc1'']\<rparr>"

definition brokenMirrorPod :: Pod where
  "brokenMirrorPod = \<lparr>Name = ''static-dns'', Namespace = ''kube-system'',
                      Annotations = [ConfigMirrorAnnotationKey \<mapsto> ''file'',
                                     CreatedByAnnotation \<mapsto> ''{'']\<rparr>"

definition exampleClient :: "string list Client" where
  "exampleClient =
    \<lparr>Pods_List = (\<lambda>w namespace nodeName.
        if nodeName = ''foo'' then Inr [ownedMirrorPod, ownedPod, barePod]
        else if nodeName = ''bar'' then Inr [brokenMirrorPod, ownedPod, stuckPod, ownedPod]
        else if nodeName = ''baz'' then Inr [ownedPod, malformedPod, barePod]
        else if nodeName = ''qux'' then Inr [orphanPod]
        else if nodeName = ''quux'' then Inr [barePod, malformedPod]
        else if nodeName = ''corge'' then Inr [malformedPod, ownedPod, barePod]
        else if nodeName = ''down'' then Inl (Error ''connection refused'')
        else Inr []),
     Pods_Delete = (\<lambda>w namespace name options.
        if name = ''stuck'' then (Some (Error ''delete failed''), w)
        else (None, w @ [''delete '' @ name])),
     ReplicationControllers_Get = (\<lambda>w namespace name.
        if namespace = ''default'' \<and> name = ''rc1'' then (Some (Controller namespace name), None)
        else (None, Some (Error ''not found''))),
     DaemonSets_Get = (\<lambda>w namespace name. (None, Some (Error ''not found''))),
     Jobs_Get = (\<lambda>w namespace name. (None, Some (Error ''not found''))),
     Helper_Replace = (\<lambda>w mapping namespace name overwrite obj.
        if name = ''locked'' then (Some (Error ''conflict''), w)
        else (None, w @ [''replace '' @ name]))\<rparr>"

definition nodeMapping :: RESTMapping where
  "nodeMapping = \<lparr>Resource = ''node'', GroupVersionKind_Kind = ''Node''\<rparr>"

definition exampleNode :: "bool \<Rightarrow> Object" where
  "exampleNode unschedulable = NodeObject \<lparr>Spec = \<lparr>Unschedulable = unschedulable\<rparr>\<rparr>"

definition exampleOptions :: "string \<Rightarrow> bool \<Rightarrow> bool \<Rightarrow> string list DrainOptions" where
  "exampleOptions nodeName unschedulable force =
    \<lparr>client = exampleClient, factory = exampleFactory, Force = force,
     GracePeriodSeconds = - 1,
     nodeInfo = \<lparr>Mapping = nodeMapping, InfoName = nodeName,
                 Object = exampleNode unschedulable\<rparr>,
     out = [], server = [], requests = []\<rparr>"

definition podInfo :: Info where
  "podInfo = \<lparr>Mapping = \<lparr>Resource = ''pod'', GroupVersionKind_Kind = ''Pod''\<rparr>,
              InfoName = ''web-1'', Object = OtherObject ''Pod''\<rparr>"

section \<open>Properties\<close>

subsection \<open>RunCordonOrUncordon\<close>

lemma RunCordonOrUncordon_already:
  assumes "DefaultNamespace (factory opts) = (cmdNamespace, b, None)"
    and "GroupVersionKind_Kind (Mapping (nodeInfo opts)) = ''Node''"
    and "Object (nodeInfo opts) = NodeObject node"
    and "Unschedulable (Spec node) = desired"
  shows "RunCordonOrUncordon desired opts =
           (Return None,
            opts\<lparr>out := out opts @
              [PrintSuccess (Resource (Mapping (nodeInfo opts))) (InfoName (nodeInfo opts))
                 (already desired)]\<rparr>)"
  using assms by (simp add: RunCordonOrUncordon_def)

lemma RunCordonOrUncordon_replace:
  assumes "DefaultNamespace (factory opts) = (cmdNamespace, b, None)"
    and "GroupVersionKind_Kind (Mapping (nodeInfo opts)) = ''Node''"
    and "Object (nodeInfo opts) = NodeObject node"
    and "Unschedulable (Spec node) \<noteq> desired"
    and "obj = NodeObject (node\<lparr>Spec := (Spec node)\<lparr>Unschedulable := desired\<rparr>\<rparr>)"
    and "Helper_Replace (client opts) (server opts) (Mapping (nodeInfo opts)) cmdNamespace
           (InfoName (nodeInfo opts)) True obj = (err, w)"
    and "opts' = opts\<lparr>nodeInfo := (nodeInfo opts)\<lparr>Object := obj\<rparr>, server := w,
                   requests := requests opts @
                     [ReplaceRequest (Mapping (nodeInfo opts)) cmdNamespace
                        (InfoName (nodeInfo opts)) True obj]\<rparr>"
  shows "RunCordonOrUncordon desired opts =
           (if err \<noteq> None then (Return err, opts')
            else (Return None,
                  opts'\<lparr>out := out opts @
                    [PrintSuccess (Resource (Mapping (nodeInfo opts))) (InfoName (nodeInfo opts))
                       (changed desired)]\<rparr>))"
  using assms by (simp add: RunCordonOrUncordon_def Let_def)

lemma RunCordonOrUncordon_namespace_error:
  assumes "DefaultNamespace (factory opts) = (cmdNamespace, b, Some e)"
  shows "RunCordonOrUncordon desired opts = (Return (Some e), opts)"
  using assms by (simp add: RunCordonOrUncordon_def)

lemma RunCordonOrUncordon_panic:
  assumes "DefaultNamespace (factory opts) = (cmdNamespace, b, None)"
    and "GroupVersionKind_Kind (Mapping (nodeInfo opts)) = ''Node''"
    and "Object (nodeInfo opts) = OtherObject x"
  shows "RunCordonOrUncordon desired opts = (Panic, opts)"
  using assms by (simp add: RunCordonOrUncordon_def)

lemma RunCordonOrUncordon_skipped:
  assumes "DefaultNamespace (factory opts) = (cmdNamespace, b, None)"
    and "GroupVersionKind_Kind (Mapping (nodeInfo opts)) \<noteq> ''Node''"
  shows "RunCordonOrUncordon desired opts =
           (Return None,
            opts\<lparr>out := out opts @
              [PrintSuccess (Resource (Mapping (nodeInfo opts))) (InfoName (nodeInfo opts))
                 ''skipped'']\<rparr>)"
  using assms by (simp add: RunCordonOrUncordon_def)

lemma RunCordonOrUncordon_requests:
  "\<exists>ws. requests (snd (RunCordonOrUncordon desired opts)) = requests opts @ ws \<and> length ws \<le> 1"
proof -
  obtain cmdNamespace b err where ns: "DefaultNamespace (factory opts) = (cmdNamespace, b, err)"
    by (cases "DefaultNamespace (factory opts)") auto
  show ?thesis
  proof (cases err)
    case (Some e)
    with ns show ?thesis by (simp add: RunCordonOrUncordon_namespace_error)
  next
    case None
    note ns = ns [unfolded None]
    show ?thesis
    proof (cases "GroupVersionKind_Kind (Mapping (nodeInfo opts)) = ''Node''")
      case False
      show ?thesis by (simp add: RunCordonOrUncordon_skipped [OF ns False])
    next
      case kind: True
      show ?thesis
      proof (cases "Object (nodeInfo opts)")
        case (OtherObject x)
        show ?thesis by (simp add: RunCordonOrUncordon_panic [OF ns kind OtherObject])
      next
        case (NodeObject node)
        show ?thesis
        proof (cases "Unschedulable (Spec node) = desired")
          case True
          show ?thesis by (simp add: RunCordonOrUncordon_already [OF ns kind NodeObject True])
        next
          case False
          obtain e w where r: "Helper_Replace (client opts) (server opts) (Mapping (nodeInfo opts))
              cmdNamespace (InfoName (nodeInfo opts)) True
              (NodeObject (node\<lparr>Spec := (Spec node)\<lparr>Unschedulable := desired\<rparr>\<rparr>)) = (e, w)"
            by (cases "Helper_Replace (client opts) (server opts) (Mapping (nodeInfo opts))
              cmdNamespace (InfoName (nodeInfo opts)) True
              (NodeObject (node\<lparr>Spec := (Spec node)\<lparr>Unschedulable := desired\<rparr>\<rparr>))") auto
          show ?thesis
            by (simp add: RunCordonOrUncordon_replace [OF ns kind NodeObject False refl r refl])
        qed
      qed
    qed
  qed
qed

lemma RunCordonOrUncordon_again:
  assumes kind: "GroupVersionKind_Kind (Mapping (nodeInfo opts)) = ''Node''"
    and run: "RunCordonOrUncordon desired opts = (Return None, opts')"
  shows "RunCordonOrUncordon desired opts' =
           (Return None,
            opts'\<lparr>out := out opts' @
              [PrintSuccess (Resource (Mapping (nodeInfo opts))) (InfoName (nodeInfo opts))
                 (already desired)]\<rparr>)"
proof -
  obtain cmdNamespace b err where ns: "DefaultNamespace (factory opts) = (cmdNamespace, b, err)"
    by (cases "DefaultNamespace (factory opts)") auto
  have "err = None"
  proof (cases err)
    case (Some e)
    with ns run show ?thesis by (simp add: RunCordonOrUncordon_namespace_error)
  qed simp
  note ns = ns [unfolded this]
  obtain node where obj: "Object (nodeInfo opts) = NodeObject node"
  proof (cases "Object (nodeInfo opts)")
    case (OtherObject x)
    with run show ?thesis by (simp add: RunCordonOrUncordon_panic [OF ns kind OtherObject])
  qed simp
  let ?node = "node\<lparr>Spec := (Spec node)\<lparr>Unschedulable := desired\<rparr>\<rparr>"
  have after: "factory opts' = factory opts \<and> Mapping (nodeInfo opts') = Mapping (nodeInfo opts) \<and>
      InfoName (nodeInfo opts') = InfoName (nodeInfo opts) \<and>
      Object (nodeInfo opts') = NodeObject ?node"
  proof (cases "Unschedulable (Spec node) = desired")
    case True
    from run have "opts' = opts\<lparr>out := out opts @
        [PrintSuccess (Resource (Mapping (nodeInfo opts))) (InfoName (nodeInfo opts))
           (already desired)]\<rparr>"
      by (simp add: RunCordonOrUncordon_already [OF ns kind obj True])
    with obj True show ?thesis by simp
  next
    case False
    obtain e w where r: "Helper_Replace (client opts) (server opts) (Mapping (nodeInfo opts))
        cmdNamespace (InfoName (nodeInfo opts)) True (NodeObject ?node) = (e, w)"
      by (cases "Helper_Replace (client opts) (server opts) (Mapping (nodeInfo opts))
        cmdNamespace (InfoName (nodeInfo opts)) True (NodeObject ?node)") auto
    note rep = RunCordonOrUncordon_replace [OF ns kind obj False refl r refl]
    have "opts' = opts\<lparr>nodeInfo := (nodeInfo opts)\<lparr>Object := NodeObject ?node\<rparr>, server := w,
        requests := requests opts @
          [ReplaceRequest (Mapping (nodeInfo opts)) cmdNamespace (InfoName (nodeInfo opts)) True
             (NodeObject ?node)],
        out := out opts @
          [PrintSuccess (Resource (Mapping (nodeInfo opts))) (InfoName (nodeInfo opts))
             (changed desired)]\<rparr>"
    proof (cases e)
      case None
      with run rep show ?thesis by simp
    next
      case (Some x)
      with run rep show ?thesis by simp
    qed
    then show ?thesis by simp
  qed
  have ns': "DefaultNamespace (factory opts') = (cmdNamespace, b, None)"
    using ns after by simp
  have kind': "GroupVersionKind_Kind (Mapping (nodeInfo opts')) = ''Node''"
    using kind after by simp
  have obj': "Object (nodeInfo opts') = NodeObject ?node"
    using after by simp
  have "Unschedulable (Spec ?node) = desired" by simp
  from RunCordonOrUncordon_already [OF ns' kind' obj' this] after show ?thesis by simp
qed

text \<open>
  Claim C5, amended. RunCordonOrUncordon is idempotent on a node (the kind is Node and the
  object is a node). When the node's flag already equals the desired value, the call sends
  no request and leaves the server as it is, and, when the default namespace is resolved,
  prints the "already cordoned" or "already uncordoned" status and returns nil. When the
  flag differs and the default namespace is resolved, it sends exactly one request, the
  replace of the node with the flag set. When the default namespace is not resolved, it
  returns that error, sends nothing and prints nothing. A second call after a successful
  one prints the "already" status and changes nothing else. Whatever the input, one call
  sends at most one request.
\<close>

theorem RunCordonOrUncordon_idempotent:
  assumes kind: "GroupVersionKind_Kind (Mapping (nodeInfo opts)) = ''Node''"
    and obj: "Object (nodeInfo opts) = NodeObject node"
  shows "(Unschedulable (Spec node) = desired \<longrightarrow>
            requests (snd (RunCordonOrUncordon desired opts)) = requests opts \<and>
            server (snd (RunCordonOrUncordon desired opts)) = server opts \<and>
            (DefaultNamespace (factory opts) = (cmdNamespace, b, None) \<longrightarrow>
               RunCordonOrUncordon desired opts =
                 (Return None,
                  opts\<lparr>out := out opts @
                    [PrintSuccess (Resource (Mapping (nodeInfo opts))) (InfoName (nodeInfo opts))
                       (already desired)]\<rparr>))) \<and>
         (Unschedulable (Spec node) \<noteq> desired \<and>
          DefaultNamespace (factory opts) = (cmdNamespace, b, None) \<longrightarrow>
            requests (snd (RunCordonOrUncordon desired opts)) =
              requests opts @
                [ReplaceRequest (Mapping (nodeInfo opts)) cmdNamespace (InfoName (nodeInfo opts))
                   True (NodeObject (node\<lparr>Spec := (Spec node)\<lparr>Unschedulable := desired\<rparr>\<rparr>))]) \<and>
         (DefaultNamespace (factory opts) = (cmdNamespace, b, Some e) \<longrightarrow>
            RunCordonOrUncordon desired opts = (Return (Some e), opts)) \<and>
         (\<forall>opts'. RunCordonOrUncordon desired opts = (Return None, opts') \<longrightarrow>
            RunCordonOrUncordon desired opts' =
              (Return None,
               opts'\<lparr>out := out opts' @
                 [PrintSuccess (Resource (Mapping (nodeInfo opts))) (InfoName (nodeInfo opts))
                    (already desired)]\<rparr>)) \<and>
         (\<forall>d (other :: 'w DrainOptions).
            \<exists>ws. requests (snd (RunCordonOrUncordon d other)) = requests other @ ws \<and>
                 length ws \<le> 1)"
proof (intro conjI impI allI)
  assume eq: "Unschedulable (Spec node) = desired"
  obtain c b' err where ns: "DefaultNamespace (factory opts) = (c, b', err)"
    by (cases "DefaultNamespace (factory opts)") auto
  have "requests (snd (RunCordonOrUncordon desired opts)) = requests opts \<and>
      server (snd (RunCordonOrUncordon desired opts)) = server opts"
  proof (cases err)
    case None
    with ns show ?thesis by (simp add: RunCordonOrUncordon_already [OF _ kind obj eq])
  next
    case (Some x)
    with ns show ?thesis by (simp add: RunCordonOrUncordon_namespace_error)
  qed
  then show "requests (snd (RunCordonOrUncordon desired opts)) = requests opts"
    and "server (snd (RunCordonOrUncordon desired opts)) = server opts"
    by simp_all
  assume "DefaultNamespace (factory opts) = (cmdNamespace, b, None)"
  then show "RunCordonOrUncordon desired opts =
        (Return None,
         opts\<lparr>out := out opts @
           [PrintSuccess (Resource (Mapping (nodeInfo opts))) (InfoName (nodeInfo opts))
              (already desired)]\<rparr>)"
    by (rule RunCordonOrUncordon_already [OF _ kind obj eq])
next
  assume a: "Unschedulable (Spec node) \<noteq> desired \<and>
      DefaultNamespace (factory opts) = (cmdNamespace, b, None)"
  then have ne: "Unschedulable (Spec node) \<noteq> desired"
    and ns: "DefaultNamespace (factory opts) = (cmdNamespace, b, None)"
    by simp_all
  obtain err w where r: "Helper_Replace (client opts) (server opts) (Mapping (nodeInfo opts))
      cmdNamespace (InfoName (nodeInfo opts)) True
      (NodeObject (node\<lparr>Spec := (Spec node)\<lparr>Unschedulable := desired\<rparr>\<rparr>)) = (err, w)"
    by (cases "Helper_Replace (client opts) (server opts) (Mapping (nodeInfo opts))
      cmdNamespace (InfoName (nodeInfo opts)) True
      (NodeObject (node\<lparr>Spec := (Spec node)\<lparr>Unschedulable := desired\<rparr>\<rparr>))") auto
  show "requests (snd (RunCordonOrUncordon desired opts)) =
      requests opts @
        [ReplaceRequest (Mapping (nodeInfo opts)) cmdNamespace (InfoName (nodeInfo opts))
           True (NodeObject (node\<lparr>Spec := (Spec node)\<lparr>Unschedulable := desired\<rparr>\<rparr>))]"
    by (simp add: RunCordonOrUncordon_replace [OF ns kind obj ne refl r refl])
next
  assume "DefaultNamespace (factory opts) = (cmdNamespace, b, Some e)"
  then show "RunCordonOrUncordon desired opts = (Return (Some e), opts)"
    by (rule RunCordonOrUncordon_namespace_error)
next
  fix opts'
  assume "RunCordonOrUncordon desired opts = (Return None, opts')"
  then show "RunCordonOrUncordon desired opts' =
      (Return None,
       opts'\<lparr>out := out opts' @
         [PrintSuccess (Resource (Mapping (nodeInfo opts))) (InfoName (nodeInfo opts))
            (already desired)]\<rparr>)"
    by (rule RunCordonOrUncordon_again [OF kind])
next
  fix d and other :: "'w DrainOptions"
  show "\<exists>ws. requests (snd (RunCordonOrUncordon d other)) = requests other @ ws \<and> length ws \<le> 1"
    by (rule RunCordonOrUncordon_requests)
qed

text \<open>The example cluster, evaluated.\<close>

lemma exampleOptions_sel:
  "client (exampleOptions n u f) = exampleClient"
  "factory (exampleOptions n u f) = exampleFactory"
  "Force (exampleOptions n u f) = f"
  "GracePeriodSeconds (exampleOptions n u f) = - 1"
  "nodeInfo (exampleOptions n u f) = \<lparr>Mapping = nodeMapping, InfoName = n, Object = exampleNode u\<rparr>"
  "out (exampleOptions n u f) = []"
  "server (exampleOptions n u f) = []"
  "requests (exampleOptions n u f) = []"
  by (simp_all add: exampleOptions_def)

lemma exampleFactory_sel:
  "DefaultNamespace exampleFactory = (''default'', False, None)"
  "Decoder exampleFactory = exampleDecoder"
  by (simp_all add: exampleFactory_def)

lemma nodeMapping_sel:
  "Resource nodeMapping = ''node''"
  "GroupVersionKind_Kind nodeMapping = ''Node''"
  by (simp_all add: nodeMapping_def)

lemma exampleClient_Replace:
  "Helper_Replace exampleClient w m ns name ow obj =
     (if name = ''locked'' then (Some (Error ''conflict''), w) else (None, w @ [''replace '' @ name]))"
  by (simp add: exampleClient_def)

lemma exampleCordon:
  "RunCordonOrUncordon True (exampleOptions ''foo'' False f) =
     (Return None,
      (exampleOptions ''foo'' True f)
        \<lparr>out := [PrintSuccess ''node'' ''foo'' ''cordoned''],
          server := [''replace foo''],
          requests := [ReplaceRequest nodeMapping ''default'' ''foo'' True (exampleNode True)]\<rparr>)"
  by (simp add: RunCordonOrUncordon_def exampleOptions_def exampleFactory_sel nodeMapping_sel
      exampleNode_def exampleClient_Replace changed_def Let_def)

text \<open>
  Claim C5, as stated, fails when the default namespace is not resolved: on the example node
  foo with the failing factory, the call returns the factory's error; with the flag already
  set it prints no "already cordoned" status, and with the flag not set it sends no request.
\<close>

theorem RunCordonOrUncordon_namespace_counterexample:
  "GroupVersionKind_Kind (Mapping (nodeInfo (exampleOptions ''foo'' True False))) = ''Node'' \<and>
   Object (nodeInfo (exampleOptions ''foo'' True False)) =
     NodeObject \<lparr>Spec = \<lparr>Unschedulable = True\<rparr>\<rparr> \<and>
   RunCordonOrUncordon True ((exampleOptions ''foo'' True False)\<lparr>factory := failingFactory\<rparr>) =
     (Return (Some (Error ''no namespace'')),
      (exampleOptions ''foo'' True False)\<lparr>factory := failingFactory\<rparr>) \<and>
   out (snd (RunCordonOrUncordon True
     ((exampleOptions ''foo'' True False)\<lparr>factory := failingFactory\<rparr>))) = [] \<and>
   Object (nodeInfo (exampleOptions ''foo'' False False)) =
     NodeObject \<lparr>Spec = \<lparr>Unschedulable = False\<rparr>\<rparr> \<and>
   requests (snd (RunCordonOrUncordon True
     ((exampleOptions ''foo'' False False)\<lparr>factory := failingFactory\<rparr>))) = []"
  by (simp add: RunCordonOrUncordon_def failingFactory_def exampleOptions_sel nodeMapping_sel
      exampleNode_def)

theorem RunCordonOrUncordon_idempotent_witness:
  "RunCordonOrUncordon True (exampleOptions ''foo'' True False) =
     (Return None,
      (exampleOptions ''foo'' True False)
        \<lparr>out := [PrintSuccess ''node'' ''foo'' ''already cordoned'']\<rparr>) \<and>
   requests (snd (RunCordonOrUncordon True (exampleOptions ''foo'' False False))) =
     [ReplaceRequest nodeMapping ''default'' ''foo'' True (exampleNode True)] \<and>
   RunCordonOrUncordon True (snd (RunCordonOrUncordon True (exampleOptions ''foo'' False False))) =
     (Return None,
      (snd (RunCordonOrUncordon True (exampleOptions ''foo'' False False)))
        \<lparr>out := [PrintSuccess ''node'' ''foo'' ''cordoned'',
                 PrintSuccess ''node'' ''foo'' ''already cordoned'']\<rparr>)"
proof -
  have ns: "\<And>u. DefaultNamespace (factory (exampleOptions ''foo'' u False)) = (''default'', False, None)"
    by (simp add: exampleOptions_sel exampleFactory_sel)
  have kind: "\<And>u. GroupVersionKind_Kind (Mapping (nodeInfo (exampleOptions ''foo'' u False))) = ''Node''"
    by (simp add: exampleOptions_sel nodeMapping_sel)
  have obj: "\<And>u. Object (nodeInfo (exampleOptions ''foo'' u False)) =
      NodeObject \<lparr>Spec = \<lparr>Unschedulable = u\<rparr>\<rparr>"
    by (simp add: exampleOptions_sel exampleNode_def)
  note same = RunCordonOrUncordon_idempotent [OF kind [of True] obj [of True],
      where desired = True and cmdNamespace = "''default''" and b = False]
  note diff = RunCordonOrUncordon_idempotent [OF kind [of False] obj [of False],
      where desired = True and cmdNamespace = "''default''" and b = False]
  from same [THEN conjunct1] ns [of True]
  have 1: "RunCordonOrUncordon True (exampleOptions ''foo'' True False) =
     (Return None,
      (exampleOptions ''foo'' True False)
        \<lparr>out := [PrintSuccess ''node'' ''foo'' ''already cordoned'']\<rparr>)"
    by (simp add: exampleOptions_sel nodeMapping_sel already_def)
  from diff [THEN conjunct2, THEN conjunct1] ns [of False]
  have 2: "requests (snd (RunCordonOrUncordon True (exampleOptions ''foo'' False False))) =
     [ReplaceRequest nodeMapping ''default'' ''foo'' True (exampleNode True)]"
    by (simp add: exampleOptions_sel exampleNode_def)
  from diff [THEN conjunct2, THEN conjunct2, THEN conjunct2, THEN conjunct1, rule_format,
      OF exampleCordon]
  have 3: "RunCordonOrUncordon True (snd (RunCordonOrUncordon True (exampleOptions ''foo'' False False))) =
     (Return None,
      (snd (RunCordonOrUncordon True (exampleOptions ''foo'' False False)))
        \<lparr>out := [PrintSuccess ''node'' ''foo'' ''cordoned'',
                 PrintSuccess ''node'' ''foo'' ''already cordoned'']\<rparr>)"
    by (simp add: exampleCordon exampleOptions_sel nodeMapping_sel already_def)
  from 1 2 3 show ?thesis by blast
qed

text \<open>
  Claim C8, as stated, fails when the default namespace is not resolved: on a pod of the
  example with the failing factory, the call returns the factory's error, not nil, and
  prints no "skipped" status.
\<close>

theorem RunCordonOrUncordon_skipped_namespace_counterexample:
  "GroupVersionKind_Kind (Mapping podInfo) \<noteq> ''Node'' \<and>
   RunCordonOrUncordon True
     ((exampleOptions ''web-1'' False False)\<lparr>nodeInfo := podInfo, factory := failingFactory\<rparr>) =
     (Return (Some (Error ''no namespace'')),
      (exampleOptions ''web-1'' False False)\<lparr>nodeInfo := podInfo, factory := failingFactory\<rparr>) \<and>
   out (snd (RunCordonOrUncordon True
     ((exampleOptions ''web-1'' False False)\<lparr>nodeInfo := podInfo, factory := failingFactory\<rparr>))) =
     []"
  by (simp add: RunCordonOrUncordon_def failingFactory_def exampleOptions_sel podInfo_def)

text \<open>
  Claim C8, amended. When the kind of the resolved object is not Node, RunCordonOrUncordon,
  for both desired values, sends no request and neither reads nor writes the object: with
  any object in its place (also one on which the reflective access would panic) it returns
  the same result and the same state, carrying that object unchanged. When the default
  namespace is resolved, it returns nil and only prints the status "skipped"; when it is
  not, it returns that error and prints nothing.
\<close>

theorem RunCordonOrUncordon_skips_other_kinds:
  assumes kind: "GroupVersionKind_Kind (Mapping (nodeInfo opts)) \<noteq> ''Node''"
  shows "(DefaultNamespace (factory opts) = (cmdNamespace, b, None) \<longrightarrow>
            RunCordonOrUncordon desired opts =
              (Return None,
               opts\<lparr>out := out opts @
                 [PrintSuccess (Resource (Mapping (nodeInfo opts))) (InfoName (nodeInfo opts))
                    ''skipped'']\<rparr>)) \<and>
         (DefaultNamespace (factory opts) = (cmdNamespace, b, Some e) \<longrightarrow>
            RunCordonOrUncordon desired opts = (Return (Some e), opts)) \<and>
         requests (snd (RunCordonOrUncordon desired opts)) = requests opts \<and>
         server (snd (RunCordonOrUncordon desired opts)) = server opts \<and>
         nodeInfo (snd (RunCordonOrUncordon desired opts)) = nodeInfo opts \<and>
         (\<forall>obj. RunCordonOrUncordon desired (opts\<lparr>nodeInfo := (nodeInfo opts)\<lparr>Object := obj\<rparr>\<rparr>) =
            (fst (RunCordonOrUncordon desired opts),
             (snd (RunCordonOrUncordon desired opts))
               \<lparr>nodeInfo := (nodeInfo opts)\<lparr>Object := obj\<rparr>\<rparr>))"
proof -
  obtain c b' err where ns: "DefaultNamespace (factory opts) = (c, b', err)"
    by (cases "DefaultNamespace (factory opts)") auto
  have run: "RunCordonOrUncordon desired opts =
      (case err of
         Some x \<Rightarrow> (Return (Some x), opts)
       | None \<Rightarrow> (Return None,
           opts\<lparr>out := out opts @
             [PrintSuccess (Resource (Mapping (nodeInfo opts))) (InfoName (nodeInfo opts))
                ''skipped'']\<rparr>))"
  proof (cases err)
    case None
    with ns show ?thesis by (simp add: RunCordonOrUncordon_skipped [OF _ kind])
  next
    case (Some x)
    with ns show ?thesis by (simp add: RunCordonOrUncordon_namespace_error)
  qed
  have any: "\<And>obj. RunCordonOrUncordon desired (opts\<lparr>nodeInfo := (nodeInfo opts)\<lparr>Object := obj\<rparr>\<rparr>) =
      (case err of
         Some x \<Rightarrow> (Return (Some x), opts\<lparr>nodeInfo := (nodeInfo opts)\<lparr>Object := obj\<rparr>\<rparr>)
       | None \<Rightarrow> (Return None,
           opts\<lparr>nodeInfo := (nodeInfo opts)\<lparr>Object := obj\<rparr>,
                out := out opts @
             [PrintSuccess (Resource (Mapping (nodeInfo opts))) (InfoName (nodeInfo opts))
                ''skipped'']\<rparr>))"
  proof -
    fix obj
    let ?opts = "opts\<lparr>nodeInfo := (nodeInfo opts)\<lparr>Object := obj\<rparr>\<rparr>"
    have ns': "DefaultNamespace (factory ?opts) = (c, b', err)"
      using ns by simp
    have kind': "GroupVersionKind_Kind (Mapping (nodeInfo ?opts)) \<noteq> ''Node''"
      using kind by simp
    show "RunCordonOrUncordon desired ?opts =
      (case err of
         Some x \<Rightarrow> (Return (Some x), ?opts)
       | None \<Rightarrow> (Return None,
           opts\<lparr>nodeInfo := (nodeInfo opts)\<lparr>Object := obj\<rparr>,
                out := out opts @
             [PrintSuccess (Resource (Mapping (nodeInfo opts))) (InfoName (nodeInfo opts))
                ''skipped'']\<rparr>))"
    proof (cases err)
      case None
      with ns' show ?thesis by (simp add: RunCordonOrUncordon_skipped [OF _ kind'])
    next
      case (Some x)
      with ns' show ?thesis by (simp add: RunCordonOrUncordon_namespace_error)
    qed
  qed
  show ?thesis
  proof (cases err)
    case None
    with ns run any show ?thesis by simp
  next
    case (Some x)
    with ns run any show ?thesis by simp
  qed
qed

theorem RunCordonOrUncordon_skips_other_kinds_witness:
  "RunCordonOrUncordon True ((exampleOptions ''web-1'' False False)\<lparr>nodeInfo := podInfo\<rparr>) =
     (Return None,
      (exampleOptions ''web-1'' False False)
        \<lparr>nodeInfo := podInfo, out := [PrintSuccess ''pod'' ''web-1'' ''skipped'']\<rparr>) \<and>
   RunCordonOrUncordon False ((exampleOptions ''web-1'' False False)\<lparr>nodeInfo := podInfo\<rparr>) =
     (Return None,
      (exampleOptions ''web-1'' False False)
        \<lparr>nodeInfo := podInfo, out := [PrintSuccess ''pod'' ''web-1'' ''skipped'']\<rparr>)"
proof -
  let ?opts = "(exampleOptions ''web-1'' False False)\<lparr>nodeInfo := podInfo\<rparr>"
  have ns: "DefaultNamespace (factory ?opts) = (''default'', False, None)"
    by (simp add: exampleOptions_sel exampleFactory_sel)
  have kind: "GroupVersionKind_Kind (Mapping (nodeInfo ?opts)) \<noteq> ''Node''"
    by (simp add: podInfo_def)
  from RunCordonOrUncordon_skips_other_kinds [OF kind, of "''default''" False True,
      THEN conjunct1, rule_format, OF ns]
    RunCordonOrUncordon_skips_other_kinds [OF kind, of "''default''" False False,
      THEN conjunct1, rule_format, OF ns]
  show ?thesis
    by (simp add: exampleOptions_sel podInfo_def)
qed

text \<open>
  Claim C9. When the replace request fails, RunCordonOrUncordon returns its error, and the
  node object in memory already holds the desired value of Unschedulable: it was set before
  the request and is not restored. A second call on the returned state finds the flag
  equal to the desired value, sends no request and prints the "already" status.
\<close>

theorem RunCordonOrUncordon_failed_replace_keeps_flag:
  assumes ns: "DefaultNamespace (factory opts) = (cmdNamespace, b, None)"
    and kind: "GroupVersionKind_Kind (Mapping (nodeInfo opts)) = ''Node''"
    and obj: "Object (nodeInfo opts) = NodeObject node"
    and ne: "Unschedulable (Spec node) \<noteq> desired"
    and fail: "Helper_Replace (client opts) (server opts) (Mapping (nodeInfo opts)) cmdNamespace
                 (InfoName (nodeInfo opts)) True
                 (NodeObject (node\<lparr>Spec := (Spec node)\<lparr>Unschedulable := desired\<rparr>\<rparr>)) =
               (Some err, w)"
    and after: "opts' = opts\<lparr>nodeInfo := (nodeInfo opts)
                    \<lparr>Object := NodeObject (node\<lparr>Spec := (Spec node)\<lparr>Unschedulable := desired\<rparr>\<rparr>)\<rparr>,
                  server := w,
                  requests := requests opts @
                    [ReplaceRequest (Mapping (nodeInfo opts)) cmdNamespace (InfoName (nodeInfo opts))
                       True (NodeObject (node\<lparr>Spec := (Spec node)\<lparr>Unschedulable := desired\<rparr>\<rparr>))]\<rparr>"
  shows "RunCordonOrUncordon desired opts = (Return (Some err), opts') \<and>
         Object (nodeInfo opts') =
           NodeObject (node\<lparr>Spec := (Spec node)\<lparr>Unschedulable := desired\<rparr>\<rparr>) \<and>
         RunCordonOrUncordon desired opts' =
           (Return None,
            opts'\<lparr>out := out opts @
              [PrintSuccess (Resource (Mapping (nodeInfo opts))) (InfoName (nodeInfo opts))
                 (already desired)]\<rparr>)"
proof (intro conjI)
  show "RunCordonOrUncordon desired opts = (Return (Some err), opts')"
    by (simp add: RunCordonOrUncordon_replace [OF ns kind obj ne refl fail after])
  show o': "Object (nodeInfo opts') =
      NodeObject (node\<lparr>Spec := (Spec node)\<lparr>Unschedulable := desired\<rparr>\<rparr>)"
    by (simp add: after)
  have ns': "DefaultNamespace (factory opts') = (cmdNamespace, b, None)"
    using ns by (simp add: after)
  have kind': "GroupVersionKind_Kind (Mapping (nodeInfo opts')) = ''Node''"
    using kind by (simp add: after)
  have "Unschedulable (Spec (node\<lparr>Spec := (Spec node)\<lparr>Unschedulable := desired\<rparr>\<rparr>)) = desired"
    by simp
  from RunCordonOrUncordon_already [OF ns' kind' o' this]
  show "RunCordonOrUncordon desired opts' =
      (Return None,
       opts'\<lparr>out := out opts @
         [PrintSuccess (Resource (Mapping (nodeInfo opts))) (InfoName (nodeInfo opts))
            (already desired)]\<rparr>)"
    by (simp add: after)
qed

theorem RunCordonOrUncordon_failed_replace_keeps_flag_witness:
  "RunCordonOrUncordon True (exampleOptions ''locked'' False False) =
     (Return (Some (Error ''conflict'')),
      (exampleOptions ''locked'' True False)
        \<lparr>requests := [ReplaceRequest nodeMapping ''default'' ''locked'' True (exampleNode True)]\<rparr>) \<and>
   RunCordonOrUncordon True
      ((exampleOptions ''locked'' True False)
        \<lparr>requests := [ReplaceRequest nodeMapping ''default'' ''locked'' True (exampleNode True)]\<rparr>) =
     (Return None,
      (exampleOptions ''locked'' True False)
        \<lparr>requests := [ReplaceRequest nodeMapping ''default'' ''locked'' True (exampleNode True)],
          out := [PrintSuccess ''node'' ''locked'' ''already cordoned'']\<rparr>)"
proof -
  let ?opts = "exampleOptions ''locked'' False False"
  let ?opts' = "(exampleOptions ''locked'' True False)
        \<lparr>requests := [ReplaceRequest nodeMapping ''default'' ''locked'' True (exampleNode True)]\<rparr>"
  have ns: "DefaultNamespace (factory ?opts) = (''default'', False, None)"
    by (simp add: exampleOptions_sel exampleFactory_sel)
  have kind: "GroupVersionKind_Kind (Mapping (nodeInfo ?opts)) = ''Node''"
    by (simp add: exampleOptions_sel nodeMapping_sel)
  have obj: "Object (nodeInfo ?opts) = NodeObject \<lparr>Spec = \<lparr>Unschedulable = False\<rparr>\<rparr>"
    by (simp add: exampleOptions_sel exampleNode_def)
  have ne: "Unschedulable (Spec \<lparr>Spec = \<lparr>Unschedulable = False\<rparr>\<rparr>) \<noteq> True"
    by simp
  have fail: "Helper_Replace (client ?opts) (server ?opts) (Mapping (nodeInfo ?opts)) ''default''
      (InfoName (nodeInfo ?opts)) True
      (NodeObject (\<lparr>Spec = \<lparr>Unschedulable = False\<rparr>\<rparr>
         \<lparr>Spec := (Spec \<lparr>Spec = \<lparr>Unschedulable = False\<rparr>\<rparr>)\<lparr>Unschedulable := True\<rparr>\<rparr>)) =
      (Some (Error ''conflict''), [])"
    by (simp add: exampleOptions_sel exampleClient_Replace)
  have after: "?opts' = ?opts\<lparr>nodeInfo := (nodeInfo ?opts)
        \<lparr>Object := NodeObject (\<lparr>Spec = \<lparr>Unschedulable = False\<rparr>\<rparr>
           \<lparr>Spec := (Spec \<lparr>Spec = \<lparr>Unschedulable = False\<rparr>\<rparr>)\<lparr>Unschedulable := True\<rparr>\<rparr>)\<rparr>,
      server := [],
      requests := requests ?opts @
        [ReplaceRequest (Mapping (nodeInfo ?opts)) ''default'' (InfoName (nodeInfo ?opts))
           True (NodeObject (\<lparr>Spec = \<lparr>Unschedulable = False\<rparr>\<rparr>
             \<lparr>Spec := (Spec \<lparr>Spec = \<lparr>Unschedulable = False\<rparr>\<rparr>)\<lparr>Unschedulable := True\<rparr>\<rparr>))]\<rparr>"
    by (simp add: exampleOptions_def exampleNode_def)
  from RunCordonOrUncordon_failed_replace_keeps_flag [OF ns kind obj ne fail after]
  show ?thesis
    by (simp add: exampleOptions_sel nodeMapping_sel already_def exampleNode_def)
qed

subsection \<open>The loop of getPodsForDeletion\<close>

lemma classifyPods_mirror:
  "isMirror p \<Longrightarrow> classifyPods opts (p # rest) pods names = classifyPods opts rest pods names"
  by simp

lemma classifyPods_append:
  "classifyPods opts (xs @ ys) pods names =
     (case classifyPods opts xs pods names of
        Inl r \<Rightarrow> Inl r
      | Inr (ps, ns) \<Rightarrow> classifyPods opts ys ps ns)"
proof (induction xs arbitrary: pods names)
  case Nil
  show ?case by simp
next
  case (Cons x xs)
  show ?case
  proof (cases "isMirror x")
    case True
    then show ?thesis by (simp add: Cons.IH)
  next
    case False
    then show ?thesis by (cases "replicated opts x") (simp_all add: Cons.IH)
  qed
qed

lemma classifyPods_Inr:
  "classifyPods opts items pods names = Inr (ps, ns) \<Longrightarrow>
     ps = pods @ filter (\<lambda>p. \<not> isMirror p \<and> (replicated opts p = Inr True \<or> Force opts)) items \<and>
     ns = names @ map Name (filter (\<lambda>p. \<not> isMirror p \<and> replicated opts p = Inr False) items)"
proof (induction items arbitrary: pods names)
  case Nil
  then show ?case by simp
next
  case (Cons p rest)
  show ?case
  proof (cases "isMirror p")
    case True
    with Cons.prems have "classifyPods opts rest pods names = Inr (ps, ns)" by simp
    from Cons.IH [OF this] True show ?thesis by simp
  next
    case False
    with Cons.prems obtain r where r: "replicated opts p = Inr r"
      by (cases "replicated opts p") auto
    with False Cons.prems have
      "classifyPods opts rest (if r \<or> Force opts then pods @ [p] else pods)
         (if \<not> r then names @ [Name p] else names) = Inr (ps, ns)"
      by simp
    from Cons.IH [OF this] False r show ?thesis by (cases r) auto
  qed
qed

lemma classifyPods_complete:
  "\<forall>p\<in>set items. \<not> isMirror p \<longrightarrow> (\<exists>r. replicated opts p = Inr r) \<Longrightarrow>
     \<exists>ps ns. classifyPods opts items pods names = Inr (ps, ns)"
proof (induction items arbitrary: pods names)
  case Nil
  show ?case by simp
next
  case (Cons p rest)
  then have rest: "\<forall>q\<in>set rest. \<not> isMirror q \<longrightarrow> (\<exists>r. replicated opts q = Inr r)" by simp
  show ?case
  proof (cases "isMirror p")
    case True
    with Cons.IH [OF rest] show ?thesis by simp
  next
    case False
    with Cons.prems obtain r where "replicated opts p = Inr r" by auto
    with False Cons.IH [OF rest] show ?thesis by simp
  qed
qed

lemma classifyPods_result:
  assumes "\<forall>p\<in>set items. \<not> isMirror p \<longrightarrow> (\<exists>r. replicated opts p = Inr r)"
  shows "classifyPods opts items pods names =
     Inr (pods @ filter (\<lambda>p. \<not> isMirror p \<and> (replicated opts p = Inr True \<or> Force opts)) items,
          names @ map Name (filter (\<lambda>p. \<not> isMirror p \<and> replicated opts p = Inr False) items))"
proof -
  from classifyPods_complete [OF assms] obtain ps ns
    where r: "classifyPods opts items pods names = Inr (ps, ns)" by blast
  from classifyPods_Inr [OF r] r show ?thesis by simp
qed

lemma classifyPods_approved_not_mirror:
  "classifyPods opts items pods names = Inr (ps, ns) \<or>
   classifyPods opts items pods names = Inl (ps, e) \<Longrightarrow>
     set ps \<subseteq> set pods \<union> {p \<in> set items. \<not> isMirror p}"
proof (induction items arbitrary: pods names)
  case Nil
  then show ?case by auto
next
  case (Cons p rest)
  show ?case
  proof (cases "isMirror p")
    case True
    with Cons.prems have "classifyPods opts rest pods names = Inr (ps, ns) \<or>
        classifyPods opts rest pods names = Inl (ps, e)" by simp
    from Cons.IH [OF this] show ?thesis by auto
  next
    case False
    show ?thesis
    proof (cases "replicated opts p")
      case (Inl err)
      with False Cons.prems show ?thesis by auto
    next
      case (Inr r)
      with False Cons.prems have "classifyPods opts rest
          (if r \<or> Force opts then pods @ [p] else pods)
          (if \<not> r then names @ [Name p] else names) = Inr (ps, ns) \<or>
        classifyPods opts rest
          (if r \<or> Force opts then pods @ [p] else pods)
          (if \<not> r then names @ [Name p] else names) = Inl (ps, e)" by simp
      from Cons.IH [OF this] False show ?thesis by (auto split: if_splits)
    qed
  qed
qed

lemma creatorExists_cong:
  "client a = client b \<Longrightarrow> server a = server b \<Longrightarrow> creatorExists a sr = creatorExists b sr"
  by (simp add: creatorExists_def)

lemma replicated_cong:
  "client a = client b \<Longrightarrow> server a = server b \<Longrightarrow> Decoder (factory a) = Decoder (factory b) \<Longrightarrow>
     replicated a p = replicated b p"
  by (simp add: replicated_def creatorExists_cong [of a b] split: option.splits sum.splits)

subsection \<open>getPodsForDeletion and RunDrain, case by case\<close>

lemma getPodsForDeletion_list_error:
  assumes "Pods_List (client opts) (server opts) NamespaceAll (InfoName (nodeInfo opts)) = Inl e"
  shows "getPodsForDeletion opts = (([], Some e), opts)"
  using assms by (simp add: getPodsForDeletion_def)

lemma getPodsForDeletion_decode_error:
  assumes "Pods_List (client opts) (server opts) NamespaceAll (InfoName (nodeInfo opts)) = Inr items"
    and "classifyPods opts items [] [] = Inl (pods, e)"
  shows "getPodsForDeletion opts = ((pods, Some e), opts)"
  using assms by (simp add: getPodsForDeletion_def)

lemma getPodsForDeletion_classified:
  assumes "Pods_List (client opts) (server opts) NamespaceAll (InfoName (nodeInfo opts)) = Inr items"
    and "classifyPods opts items [] [] = Inr (pods, names)"
  shows "getPodsForDeletion opts =
     (if names = [] then ((pods, None), opts)
      else if \<not> Force opts then ((pods, Some (Error (refusal (Join names '', '')))), opts)
      else ((pods, None), opts\<lparr>out := out opts @ [Fprintf (warning (Join names '', ''))]\<rparr>))"
  using assms by (simp add: getPodsForDeletion_def)

lemma getPodsForDeletion_approved_not_mirror:
  "p \<in> set (fst (fst (getPodsForDeletion opts))) \<Longrightarrow> \<not> isMirror p"
proof (cases "Pods_List (client opts) (server opts) NamespaceAll (InfoName (nodeInfo opts))")
  case (Inl e)
  assume "p \<in> set (fst (fst (getPodsForDeletion opts)))"
  then show ?thesis by (simp add: getPodsForDeletion_list_error [OF Inl])
next
  case (Inr items)
  assume p: "p \<in> set (fst (fst (getPodsForDeletion opts)))"
  show ?thesis
  proof (cases "classifyPods opts items [] []")
    case l: (Inl a)
    obtain ps e where a: "a = (ps, e)" by (cases a)
    from p have "p \<in> set ps"
      by (simp add: getPodsForDeletion_decode_error [OF Inr l [unfolded a]])
    with classifyPods_approved_not_mirror [of opts items "[]" "[]" ps _ e] l a
    show ?thesis by auto
  next
    case r: (Inr b)
    obtain ps ns where b: "b = (ps, ns)" by (cases b)
    from p have "p \<in> set ps"
      by (simp add: getPodsForDeletion_classified [OF Inr r [unfolded b]] split: if_splits)
    with classifyPods_approved_not_mirror [of opts items "[]" "[]" ps ns] r b
    show ?thesis by auto
  qed
qed

lemma RunDrain_classify_error:
  assumes "RunCordonOrUncordon True opts0 = (Return None, opts1)"
    and "getPodsForDeletion opts1 = ((pods, Some e), opts2)"
  shows "RunDrain opts0 = (Return (Some e), opts2)"
  using assms by (simp add: RunDrain_def)

lemma RunDrain_cordon_failed:
  assumes "RunCordonOrUncordon True opts0 = (r, opts1)"
    and "r \<noteq> Return None"
  shows "RunDrain opts0 = (r, opts1)"
proof (cases r)
  case Panic
  with assms show ?thesis by (simp add: RunDrain_def)
next
  case (Return x)
  with assms obtain e where "x = Some e" by (cases x) auto
  with Return assms show ?thesis by (simp add: RunDrain_def)
qed

lemma RunDrain_not_classified:
  assumes "getPodsForDeletion opts = ((pods, Some e), opts)"
    and "RunCordonOrUncordon True opts0 = (r, opts)"
  shows "snd (RunDrain opts0) = opts"
proof (cases "r = Return None")
  case True
  with assms show ?thesis by (simp add: RunDrain_classify_error)
next
  case False
  with assms show ?thesis by (simp add: RunDrain_cordon_failed)
qed

lemma RunDrain_delete:
  assumes "RunCordonOrUncordon True opts0 = (Return None, opts1)"
    and "getPodsForDeletion opts1 = ((pods, None), opts2)"
    and "deletePods opts2 pods = (err, opts3)"
  shows "RunDrain opts0 =
     (case err of
        Some e \<Rightarrow> (Return (Some e), opts3)
      | None \<Rightarrow> (Return None,
          opts3\<lparr>out := out opts3 @
            [PrintSuccess ''node'' (InfoName (nodeInfo opts3)) ''drained'']\<rparr>))"
  using assms by (simp add: RunDrain_def split: option.splits)

subsection \<open>The example cluster's pods\<close>

lemma example_isMirror:
  "isMirror ownedMirrorPod" "isMirror brokenMirrorPod"
  "\<not> isMirror ownedPod" "\<not> isMirror stuckPod" "\<not> isMirror barePod"
  "\<not> isMirror orphanPod" "\<not> isMirror malformedPod"
  by (simp_all add: isMirror_def ownedMirrorPod_def brokenMirrorPod_def ownedPod_def stuckPod_def
      barePod_def orphanPod_def malformedPod_def ConfigMirrorAnnotationKey_def
      CreatedByAnnotation_def)

lemma example_decode:
  "DecodeInto (exampleDecoder True) ''rc1'' =
     Inr \<lparr>Reference = \<lparr>Kind = ''ReplicationController'', RefNamespace = ''default'',
                        RefName = ''rc1''\<rparr>\<rparr>"
  "DecodeInto (exampleDecoder True) ''rc-gone'' =
     Inr \<lparr>Reference = \<lparr>Kind = ''ReplicationController'', RefNamespace = ''default'',
                        RefName = ''rc-gone''\<rparr>\<rparr>"
  "DecodeInto (exampleDecoder True) ''{'' = Inl (Error ''invalid character'')"
  by (simp_all add: DecodeInto_def exampleDecoder_def)

lemma example_Get:
  "ReplicationControllers_Get exampleClient w ''default'' ''rc1'' =
     (Some (Controller ''default'' ''rc1''), None)"
  "ReplicationControllers_Get exampleClient w ''default'' ''rc-gone'' =
     (None, Some (Error ''not found''))"
  by (simp_all add: exampleClient_def)

lemma example_replicated:
  "replicated (exampleOptions n u f) ownedPod = Inr True"
  "replicated (exampleOptions n u f) stuckPod = Inr True"
  "replicated (exampleOptions n u f) barePod = Inr False"
  "replicated (exampleOptions n u f) orphanPod = Inr False"
  "replicated (exampleOptions n u f) malformedPod = Inl (Error ''invalid character'')"
  by (simp_all add: replicated_def creatorExists_def exampleOptions_sel exampleFactory_sel
      example_decode example_Get ownedPod_def stuckPod_def barePod_def orphanPod_def
      malformedPod_def)

lemma example_List:
  "Pods_List exampleClient w ns ''foo'' = Inr [ownedMirrorPod, ownedPod, barePod]"
  "Pods_List exampleClient w ns ''bar'' = Inr [brokenMirrorPod, ownedPod, stuckPod, ownedPod]"
  "Pods_List exampleClient w ns ''baz'' = Inr [ownedPod, malformedPod, barePod]"
  "Pods_List exampleClient w ns ''qux'' = Inr [orphanPod]"
  "Pods_List exampleClient w ns ''quux'' = Inr [barePod, malformedPod]"
  "Pods_List exampleClient w ns ''corge'' = Inr [malformedPod, ownedPod, barePod]"
  by (simp_all add: exampleClient_def)

lemma example_names:
  "Name ownedPod = ''web-1''" "Name barePod = ''bare''" "Name orphanPod = ''orphan''"
  "Name stuckPod = ''stuck''" "Name malformedPod = ''broken''"
  "Name ownedMirrorPod = ''static-web''" "Name brokenMirrorPod = ''static-dns''"
  "Namespace ownedPod = ''default''" "Namespace barePod = ''default''"
  "Namespace stuckPod = ''default''"
  by (simp_all add: ownedPod_def barePod_def orphanPod_def stuckPod_def malformedPod_def
      ownedMirrorPod_def brokenMirrorPod_def)

lemma example_getPodsForDeletion_foo:
  "getPodsForDeletion (exampleOptions ''foo'' u False) =
     (([ownedPod], Some (Error (refusal ''bare''))), exampleOptions ''foo'' u False)"
  "getPodsForDeletion (exampleOptions ''foo'' u True) =
     (([ownedPod, barePod], None),
      (exampleOptions ''foo'' u True)\<lparr>out := [Fprintf (warning ''bare'')]\<rparr>)"
  by (simp_all add: getPodsForDeletion_def exampleOptions_sel example_List example_isMirror
      example_replicated example_names)

text \<open>
  Claim C4. A pod with the mirror annotation takes no part in the classification, whatever
  the force flag: the loop over a listing that holds the pod, at any position, gives the
  result (the approved pods, the blocked names and the error alike) of the loop over the
  listing without it, and the pods that getPodsForDeletion returns never include it.
\<close>

theorem mirror_pod_is_excluded:
  assumes mirror: "isMirror p"
  shows "\<forall>f. classifyPods (opts\<lparr>Force := f\<rparr>) (pre @ p # post) pods names =
               classifyPods (opts\<lparr>Force := f\<rparr>) (pre @ post) pods names \<and>
             p \<notin> set (fst (fst (getPodsForDeletion (opts\<lparr>Force := f\<rparr>))))"
proof (intro allI conjI)
  fix f
  have "classifyPods (opts\<lparr>Force := f\<rparr>) (pre @ [p] @ post) pods names =
        classifyPods (opts\<lparr>Force := f\<rparr>) (pre @ post) pods names"
    unfolding classifyPods_append [of _ pre]
    by (simp add: mirror split: sum.splits)
  then show "classifyPods (opts\<lparr>Force := f\<rparr>) (pre @ p # post) pods names =
        classifyPods (opts\<lparr>Force := f\<rparr>) (pre @ post) pods names"
    by simp
  show "p \<notin> set (fst (fst (getPodsForDeletion (opts\<lparr>Force := f\<rparr>))))"
    using getPodsForDeletion_approved_not_mirror [of p "opts\<lparr>Force := f\<rparr>"] mirror by blast
qed

theorem mirror_pod_is_excluded_witness:
  "isMirror ownedMirrorPod \<and>
   classifyPods (exampleOptions ''foo'' True False) [ownedMirrorPod, ownedPod, barePod] [] [] =
     Inr ([ownedPod], [''bare'']) \<and>
   classifyPods (exampleOptions ''foo'' True True) [ownedMirrorPod, ownedPod, barePod] [] [] =
     Inr ([ownedPod, barePod], [''bare'']) \<and>
   ownedMirrorPod \<notin> set (fst (fst (getPodsForDeletion (exampleOptions ''foo'' True False)))) \<and>
   ownedMirrorPod \<notin> set (fst (fst (getPodsForDeletion (exampleOptions ''foo'' True True))))"
proof -
  have m: "isMirror ownedMirrorPod" by (rule example_isMirror)
  have force: "\<And>f. (exampleOptions ''foo'' True False)\<lparr>Force := f\<rparr> = exampleOptions ''foo'' True f"
    by (simp add: exampleOptions_def)
  note inst = mirror_pod_is_excluded [OF m, of "exampleOptions ''foo'' True False" "[]"
      "[ownedPod, barePod]" "[]" "[]", unfolded force, rule_format]
  have a: "\<And>f. classifyPods (exampleOptions ''foo'' True f) [ownedMirrorPod, ownedPod, barePod] [] [] =
      classifyPods (exampleOptions ''foo'' True f) [ownedPod, barePod] [] []"
    using inst [THEN conjunct1] by simp
  have b: "\<And>f. ownedMirrorPod \<notin> set (fst (fst (getPodsForDeletion (exampleOptions ''foo'' True f))))"
    using inst [THEN conjunct2] by simp
  have c: "classifyPods (exampleOptions ''foo'' True False) [ownedPod, barePod] [] [] =
      Inr ([ownedPod], [''bare''])"
    by (simp add: example_isMirror example_replicated example_names exampleOptions_sel)
  have d: "classifyPods (exampleOptions ''foo'' True True) [ownedPod, barePod] [] [] =
      Inr ([ownedPod, barePod], [''bare''])"
    by (simp add: example_isMirror example_replicated example_names exampleOptions_sel)
  from m a [of False] a [of True] b [of False] b [of True] c d show ?thesis by simp
qed

text \<open>
  Claim C10. The mirror check comes before the decoding: the loop never runs the decoder on
  the owner reference of a mirror pod. Two decoders that agree on the references of the
  pods that are not mirror pods give the same classification, whatever they do on those of
  the mirror pods; and a listing of mirror pods only is classified without an error and
  leaves both accumulators as they were, whatever the decoder makes of their references.
\<close>

theorem mirror_pod_is_never_decoded:
  assumes agree: "\<forall>p\<in>set items. \<not> isMirror p \<longrightarrow>
      (\<forall>creatorRef. Annotations p CreatedByAnnotation = Some creatorRef \<longrightarrow>
         DecodeInto (Decoder other True) creatorRef =
         DecodeInto (Decoder (factory opts) True) creatorRef)"
  shows "classifyPods (opts\<lparr>factory := other\<rparr>) items pods names =
           classifyPods opts items pods names \<and>
         ((\<forall>p\<in>set items. isMirror p) \<longrightarrow>
            classifyPods opts items pods names = Inr (pods, names))"
proof
  from agree show "classifyPods (opts\<lparr>factory := other\<rparr>) items pods names =
      classifyPods opts items pods names"
  proof (induction items arbitrary: pods names)
    case Nil
    show ?case by simp
  next
    case (Cons p rest)
    then have rest: "\<And>pods names. classifyPods (opts\<lparr>factory := other\<rparr>) rest pods names =
        classifyPods opts rest pods names"
      by simp
    show ?case
    proof (cases "isMirror p")
      case True
      then show ?thesis by (simp add: rest)
    next
      case False
      have "\<And>sr. creatorExists (opts\<lparr>factory := other\<rparr>) sr = creatorExists opts sr"
        by (rule creatorExists_cong) simp_all
      with False Cons.prems have "replicated (opts\<lparr>factory := other\<rparr>) p = replicated opts p"
        by (simp add: replicated_def split: option.splits sum.splits)
      with False show ?thesis by (simp add: rest split: sum.splits)
    qed
  qed
next
  show "(\<forall>p\<in>set items. isMirror p) \<longrightarrow> classifyPods opts items pods names = Inr (pods, names)"
    by (induction items) simp_all
qed

theorem mirror_pod_is_never_decoded_witness:
  "Annotations brokenMirrorPod CreatedByAnnotation = Some ''{'' \<and>
   DecodeInto (Decoder (factory (exampleOptions ''bar'' True False)) True) ''{'' =
     Inl (Error ''invalid character'') \<and>
   classifyPods ((exampleOptions ''bar'' True False)
       \<lparr>factory := exampleFactory\<lparr>Decoder := \<lambda>toInternal data. Inl (Error ''no decoder'')\<rparr>\<rparr>)
     [brokenMirrorPod, barePod] [] [] =
     classifyPods (exampleOptions ''bar'' True False) [brokenMirrorPod, barePod] [] [] \<and>
   classifyPods (exampleOptions ''bar'' True False) [brokenMirrorPod] [] [] = Inr ([], [])"
proof -
  let ?other = "exampleFactory\<lparr>Decoder := \<lambda>toInternal data. Inl (Error ''no decoder'')\<rparr>"
  have agree: "\<forall>p\<in>set [brokenMirrorPod, barePod]. \<not> isMirror p \<longrightarrow>
      (\<forall>creatorRef. Annotations p CreatedByAnnotation = Some creatorRef \<longrightarrow>
         DecodeInto (Decoder ?other True) creatorRef =
         DecodeInto (Decoder (factory (exampleOptions ''bar'' True False)) True) creatorRef)"
    by (simp add: example_isMirror barePod_def)
  have only: "\<forall>p\<in>set [brokenMirrorPod]. \<not> isMirror p \<longrightarrow>
      (\<forall>creatorRef. Annotations p CreatedByAnnotation = Some creatorRef \<longrightarrow>
         DecodeInto (Decoder ?other True) creatorRef =
         DecodeInto (Decoder (factory (exampleOptions ''bar'' True False)) True) creatorRef)"
    by (simp add: example_isMirror)
  have ann: "Annotations brokenMirrorPod CreatedByAnnotation = Some ''{''"
    by (simp add: brokenMirrorPod_def)
  have dec: "DecodeInto (Decoder (factory (exampleOptions ''bar'' True False)) True) ''{'' =
     Inl (Error ''invalid character'')"
    by (simp add: exampleOptions_sel exampleFactory_sel example_decode)
  from mirror_pod_is_never_decoded [OF agree, THEN conjunct1, of "[]" "[]"]
    mirror_pod_is_never_decoded [OF only, THEN conjunct2, of "[]" "[]"]
    ann dec
  show ?thesis by (simp add: example_isMirror)
qed

lemma classifyPods_failure:
  "p \<in> set items \<Longrightarrow> \<not> isMirror p \<Longrightarrow> replicated opts p = Inl e \<Longrightarrow>
     \<exists>ps e' q. classifyPods opts items pods names = Inl (ps, e') \<and>
               q \<in> set items \<and> \<not> isMirror q \<and> replicated opts q = Inl e'"
proof (induction items arbitrary: pods names)
  case Nil
  then show ?case by simp
next
  case (Cons x rest)
  show ?case
  proof (cases "isMirror x")
    case True
    with Cons.prems have "p \<in> set rest" by auto
    from Cons.IH [OF this Cons.prems(2,3), of pods names] True show ?thesis by auto
  next
    case False
    show ?thesis
    proof (cases "replicated opts x")
      case (Inl err)
      with False show ?thesis by auto
    next
      case (Inr r)
      with Cons.prems have "p \<in> set rest" by auto
      from Cons.IH [OF this Cons.prems(2,3),
          of "if r \<or> Force opts then pods @ [x] else pods"
             "if \<not> r then names @ [Name x] else names"] False Inr
      show ?thesis by auto
    qed
  qed
qed

lemma classifyPods_first_failure:
  assumes pre: "\<forall>q\<in>set pre. \<not> isMirror q \<longrightarrow> (\<exists>r. replicated opts q = Inr r)"
    and nm: "\<not> isMirror p"
    and fail: "replicated opts p = Inl e"
  shows "classifyPods opts (pre @ p # post) pods names =
     Inl (pods @ filter (\<lambda>q. \<not> isMirror q \<and> (replicated opts q = Inr True \<or> Force opts)) pre, e)"
  by (simp add: classifyPods_append classifyPods_result [OF pre] nm fail)

lemma example_replicated_any:
  assumes "client opts = exampleClient" and "factory opts = exampleFactory"
  shows "replicated opts ownedPod = Inr True"
    and "replicated opts stuckPod = Inr True"
    and "replicated opts barePod = Inr False"
    and "replicated opts orphanPod = Inr False"
    and "replicated opts malformedPod = Inl (Error ''invalid character'')"
  using assms
  by (simp_all add: replicated_def creatorExists_def exampleFactory_sel
      example_decode example_Get ownedPod_def stuckPod_def barePod_def orphanPod_def
      malformedPod_def)

lemma example_already_cordoned:
  "RunCordonOrUncordon True (exampleOptions n True f) =
     (Return None, (exampleOptions n True f)\<lparr>out := [PrintSuccess ''node'' n ''already cordoned'']\<rparr>)"
  by (simp add: RunCordonOrUncordon_def exampleOptions_def exampleFactory_sel nodeMapping_sel
      exampleNode_def already_def)

text \<open>
  Claim C6. A pod that is not a mirror pod and whose owner reference the decoder rejects
  makes the loop return at once with the decoder's error and the pods approved so far; the
  pod is not treated as unmanaged. A listing that holds such a pod makes getPodsForDeletion
  return the decoder's error of a pod of the listing (of this pod when no pod before it
  fails to decode), and RunDrain then returns that error in the state the cordon left: no
  delete request is sent. Whatever the cordon returned, RunDrain ends in the state the
  cordon left.
\<close>

theorem decode_failure_aborts:
  assumes nm: "\<not> isMirror p"
    and ann: "Annotations p CreatedByAnnotation = Some creatorRef"
    and dec: "DecodeInto (Decoder (factory opts) True) creatorRef = Inl e"
  shows "classifyPods opts (p # rest) pods names = Inl (pods, e) \<and>
    (\<forall>items. Pods_List (client opts) (server opts) NamespaceAll (InfoName (nodeInfo opts)) = Inr items \<and>
        p \<in> set items \<longrightarrow>
      (\<exists>ps e' q. q \<in> set items \<and> \<not> isMirror q \<and> replicated opts q = Inl e' \<and>
         getPodsForDeletion opts = ((ps, Some e'), opts) \<and>
         (\<forall>opts0. RunCordonOrUncordon True opts0 = (Return None, opts) \<longrightarrow>
            RunDrain opts0 = (Return (Some e'), opts)) \<and>
         (\<forall>opts0 r. RunCordonOrUncordon True opts0 = (r, opts) \<longrightarrow>
            snd (RunDrain opts0) = opts))) \<and>
    (\<forall>pre post. Pods_List (client opts) (server opts) NamespaceAll (InfoName (nodeInfo opts)) =
          Inr (pre @ p # post) \<and>
        (\<forall>q\<in>set pre. \<not> isMirror q \<longrightarrow> (\<exists>r. replicated opts q = Inr r)) \<longrightarrow>
      getPodsForDeletion opts =
        ((filter (\<lambda>q. \<not> isMirror q \<and> (replicated opts q = Inr True \<or> Force opts)) pre, Some e),
         opts) \<and>
      (\<forall>opts0. RunCordonOrUncordon True opts0 = (Return None, opts) \<longrightarrow>
         RunDrain opts0 = (Return (Some e), opts)))"
proof (intro conjI allI impI)
  have fail: "replicated opts p = Inl e"
    by (simp add: replicated_def ann dec)
  show "classifyPods opts (p # rest) pods names = Inl (pods, e)"
    by (simp add: nm fail)
  {
    fix items
    assume a: "Pods_List (client opts) (server opts) NamespaceAll (InfoName (nodeInfo opts)) =
        Inr items \<and> p \<in> set items"
    then have list: "Pods_List (client opts) (server opts) NamespaceAll (InfoName (nodeInfo opts)) =
        Inr items" and p: "p \<in> set items" by simp_all
    from classifyPods_failure [OF p nm fail, of "[]" "[]"] obtain ps e' q
      where c: "classifyPods opts items [] [] = Inl (ps, e')"
        and q: "q \<in> set items" "\<not> isMirror q" "replicated opts q = Inl e'"
      by blast
    note g = getPodsForDeletion_decode_error [OF list c]
    have "\<forall>opts0. RunCordonOrUncordon True opts0 = (Return None, opts) \<longrightarrow>
        RunDrain opts0 = (Return (Some e'), opts)"
      using RunDrain_classify_error [OF _ g] by blast
    moreover have "\<forall>opts0 r. RunCordonOrUncordon True opts0 = (r, opts) \<longrightarrow>
        snd (RunDrain opts0) = opts"
      using RunDrain_not_classified [OF g] by blast
    ultimately
    show "\<exists>ps e' q. q \<in> set items \<and> \<not> isMirror q \<and> replicated opts q = Inl e' \<and>
         getPodsForDeletion opts = ((ps, Some e'), opts) \<and>
         (\<forall>opts0. RunCordonOrUncordon True opts0 = (Return None, opts) \<longrightarrow>
            RunDrain opts0 = (Return (Some e'), opts)) \<and>
         (\<forall>opts0 r. RunCordonOrUncordon True opts0 = (r, opts) \<longrightarrow>
            snd (RunDrain opts0) = opts)"
      using q g by blast
  }
  {
    fix pre post
    assume a: "Pods_List (client opts) (server opts) NamespaceAll (InfoName (nodeInfo opts)) =
          Inr (pre @ p # post) \<and>
        (\<forall>q\<in>set pre. \<not> isMirror q \<longrightarrow> (\<exists>r. replicated opts q = Inr r))"
    then have list: "Pods_List (client opts) (server opts) NamespaceAll (InfoName (nodeInfo opts)) =
          Inr (pre @ p # post)"
      and pre: "\<forall>q\<in>set pre. \<not> isMirror q \<longrightarrow> (\<exists>r. replicated opts q = Inr r)"
      by simp_all
    from classifyPods_first_failure [OF pre nm fail, of post "[]" "[]"]
    have c: "classifyPods opts (pre @ p # post) [] [] =
        Inl (filter (\<lambda>q. \<not> isMirror q \<and> (replicated opts q = Inr True \<or> Force opts)) pre, e)"
      by simp
    show g: "getPodsForDeletion opts =
        ((filter (\<lambda>q. \<not> isMirror q \<and> (replicated opts q = Inr True \<or> Force opts)) pre, Some e),
         opts)"
      by (rule getPodsForDeletion_decode_error [OF list c])
    fix opts0
    assume "RunCordonOrUncordon True opts0 = (Return None, opts)"
    then show "RunDrain opts0 = (Return (Some e), opts)"
      by (rule RunDrain_classify_error [OF _ g])
  }
qed

theorem decode_failure_aborts_witness:
  "\<not> isMirror malformedPod \<and>
   Annotations malformedPod CreatedByAnnotation = Some ''{'' \<and>
   classifyPods (exampleOptions ''baz'' True True) [malformedPod, barePod] [ownedPod] [] =
     Inl ([ownedPod], Error ''invalid character'') \<and>
   fst (getPodsForDeletion
         ((exampleOptions ''baz'' True True)
            \<lparr>out := [PrintSuccess ''node'' ''baz'' ''already cordoned'']\<rparr>)) =
     ([ownedPod], Some (Error ''invalid character'')) \<and>
   RunDrain (exampleOptions ''baz'' True True) =
     (Return (Some (Error ''invalid character'')),
      (exampleOptions ''baz'' True True)
        \<lparr>out := [PrintSuccess ''node'' ''baz'' ''already cordoned'']\<rparr>) \<and>
   requests (snd (RunDrain (exampleOptions ''baz'' True True))) = []"
proof -
  let ?opts = "(exampleOptions ''baz'' True True)
      \<lparr>out := [PrintSuccess ''node'' ''baz'' ''already cordoned'']\<rparr>"
  have nm: "\<not> isMirror malformedPod" by (rule example_isMirror)
  have ann: "Annotations malformedPod CreatedByAnnotation = Some ''{''"
    by (simp add: malformedPod_def)
  have dec: "DecodeInto (Decoder (factory ?opts) True) ''{'' = Inl (Error ''invalid character'')"
    by (simp add: exampleOptions_sel exampleFactory_sel example_decode)
  have dec': "DecodeInto (Decoder (factory (exampleOptions ''baz'' True True)) True) ''{'' =
      Inl (Error ''invalid character'')"
    by (simp add: exampleOptions_sel exampleFactory_sel example_decode)
  have list: "Pods_List (client ?opts) (server ?opts) NamespaceAll (InfoName (nodeInfo ?opts)) =
      Inr ([ownedPod] @ malformedPod # [barePod])"
    by (simp add: exampleOptions_sel example_List)
  have pre: "\<forall>q\<in>set [ownedPod]. \<not> isMirror q \<longrightarrow> (\<exists>r. replicated ?opts q = Inr r)"
    by (auto simp: example_replicated_any exampleOptions_sel)
  have cordon: "RunCordonOrUncordon True (exampleOptions ''baz'' True True) = (Return None, ?opts)"
    by (rule example_already_cordoned)
  from decode_failure_aborts [OF nm ann dec', THEN conjunct1, of "[barePod]" "[ownedPod]" "[]"]
  have 1: "classifyPods (exampleOptions ''baz'' True True) [malformedPod, barePod] [ownedPod] [] =
     Inl ([ownedPod], Error ''invalid character'')" .
  from decode_failure_aborts [OF nm ann dec, THEN conjunct2, THEN conjunct2, rule_format,
      OF conjI, OF list pre]
  have 2: "getPodsForDeletion ?opts = (([ownedPod], Some (Error ''invalid character'')), ?opts)"
    and 3: "\<And>opts0. RunCordonOrUncordon True opts0 = (Return None, ?opts) \<Longrightarrow>
        RunDrain opts0 = (Return (Some (Error ''invalid character'')), ?opts)"
    by (simp_all add: example_isMirror example_replicated_any exampleOptions_sel)
  from nm ann 1 2 3 [OF cordon] show ?thesis
    by (simp add: exampleOptions_sel)
qed

lemma replicated_Force:
  "replicated (opts\<lparr>Force := f\<rparr>) p = replicated opts p"
  by (rule replicated_cong) simp_all

lemma getPodsForDeletion_result:
  assumes list: "Pods_List (client opts) (server opts) NamespaceAll (InfoName (nodeInfo opts)) =
      Inr items"
    and ok: "\<forall>q\<in>set items. \<not> isMirror q \<longrightarrow> (\<exists>r. replicated opts q = Inr r)"
    and pods: "pods = filter (\<lambda>q. \<not> isMirror q \<and> (replicated opts q = Inr True \<or> Force opts)) items"
    and names: "names = map Name (filter (\<lambda>q. \<not> isMirror q \<and> replicated opts q = Inr False) items)"
  shows "getPodsForDeletion opts =
     (if names = [] then ((pods, None), opts)
      else if \<not> Force opts then ((pods, Some (Error (refusal (Join names '', '')))), opts)
      else ((pods, None), opts\<lparr>out := out opts @ [Fprintf (warning (Join names '', ''))]\<rparr>))"
proof -
  have "classifyPods opts items [] [] = Inr (pods, names)"
    by (simp add: classifyPods_result [OF ok] pods names)
  from getPodsForDeletion_classified [OF list this] show ?thesis .
qed

lemma getPodsForDeletion_result_Force:
  assumes list: "Pods_List (client opts) (server opts) NamespaceAll (InfoName (nodeInfo opts)) =
      Inr items"
    and ok: "\<forall>q\<in>set items. \<not> isMirror q \<longrightarrow> (\<exists>r. replicated opts q = Inr r)"
    and pods: "pods = filter (\<lambda>q. \<not> isMirror q \<and> (replicated opts q = Inr True \<or> f)) items"
    and names: "names = map Name (filter (\<lambda>q. \<not> isMirror q \<and> replicated opts q = Inr False) items)"
  shows "getPodsForDeletion (opts\<lparr>Force := f\<rparr>) =
     (if names = [] then ((pods, None), opts\<lparr>Force := f\<rparr>)
      else if \<not> f then ((pods, Some (Error (refusal (Join names '', '')))), opts\<lparr>Force := f\<rparr>)
      else ((pods, None),
            opts\<lparr>Force := f, out := out opts @ [Fprintf (warning (Join names '', ''))]\<rparr>))"
proof -
  let ?opts = "opts\<lparr>Force := f\<rparr>"
  have list': "Pods_List (client ?opts) (server ?opts) NamespaceAll (InfoName (nodeInfo ?opts)) =
      Inr items"
    using list by simp
  have ok': "\<forall>q\<in>set items. \<not> isMirror q \<longrightarrow> (\<exists>r. replicated ?opts q = Inr r)"
    using ok by (simp add: replicated_Force)
  have pods': "pods = filter (\<lambda>q. \<not> isMirror q \<and> (replicated ?opts q = Inr True \<or> Force ?opts)) items"
    by (simp add: pods replicated_Force)
  have names': "names = map Name (filter (\<lambda>q. \<not> isMirror q \<and> replicated ?opts q = Inr False) items)"
    by (simp add: names replicated_Force)
  from getPodsForDeletion_result [OF list' ok' pods' names'] show ?thesis by simp
qed

lemma classifyPods_step:
  assumes "\<not> isMirror p" and "replicated opts p = Inr r"
  shows "classifyPods (opts\<lparr>Force := f\<rparr>) (p # rest) pods names =
     classifyPods (opts\<lparr>Force := f\<rparr>) rest
       (if r \<or> f then pods @ [p] else pods) (if \<not> r then names @ [Name p] else names)"
  using assms by (simp add: replicated_Force)

text \<open>
  Claim C3, as stated, fails when another pod of the listing does not decode. The pod bare
  of the example is not a mirror pod and has no owner reference. On the node quux the pod
  after it fails to decode: without the force flag the error returned is the decoder's,
  which carries no name, and with the flag the call still returns that error and writes no
  warning. On the node corge the pod before it fails to decode: with the force flag the
  loop returns before it reaches the pod, which is not among the approved pods.
\<close>

theorem unmanaged_pod_decode_failure_counterexample:
  "\<not> isMirror barePod \<and>
   Annotations barePod CreatedByAnnotation = None \<and>
   Pods_List (client (exampleOptions ''quux'' True False))
       (server (exampleOptions ''quux'' True False)) NamespaceAll
       (InfoName (nodeInfo (exampleOptions ''quux'' True False))) =
     Inr [barePod, malformedPod] \<and>
   getPodsForDeletion (exampleOptions ''quux'' True False) =
     (([], Some (Error ''invalid character'')), exampleOptions ''quux'' True False) \<and>
   getPodsForDeletion (exampleOptions ''quux'' True True) =
     (([barePod], Some (Error ''invalid character'')), exampleOptions ''quux'' True True) \<and>
   out (snd (getPodsForDeletion (exampleOptions ''quux'' True True))) = [] \<and>
   Pods_List (client (exampleOptions ''corge'' True True))
       (server (exampleOptions ''corge'' True True)) NamespaceAll
       (InfoName (nodeInfo (exampleOptions ''corge'' True True))) =
     Inr [malformedPod, ownedPod, barePod] \<and>
   getPodsForDeletion (exampleOptions ''corge'' True True) =
     (([], Some (Error ''invalid character'')), exampleOptions ''corge'' True True) \<and>
   barePod \<notin> set (fst (fst (getPodsForDeletion (exampleOptions ''corge'' True True))))"
  by (simp add: getPodsForDeletion_def exampleOptions_sel example_List example_isMirror
      example_replicated example_names barePod_def [THEN arg_cong, of Annotations])

text \<open>
  Claim C3, amended. A pod that is not a mirror pod and has no owner reference, or a
  reference of a kind other than ReplicationController, DaemonSet and Job, or a reference
  whose lookup returns an error (of any sort) or a nil pointer, is unmanaged. Without the
  force flag the loop appends its name to the blocked names and does not approve it; with
  the flag it approves the pod, and its name still goes to the names of the warning. For a
  listing that holds the pod and is classified to the end (the listing succeeds and no pod
  of it fails to decode), getPodsForDeletion without the flag returns the refusal that
  lists the blocked names, the pod's among them, and does not approve the pod; with the
  flag it returns no error and approves the pod, and only writes the warning with those
  names.
\<close>

theorem unmanaged_pod_blocks_unless_forced:
  assumes nm: "\<not> isMirror p"
    and unowned: "Annotations p CreatedByAnnotation = None \<or>
      (\<exists>creatorRef sr.
         Annotations p CreatedByAnnotation = Some creatorRef \<and>
         DecodeInto (Decoder (factory opts) True) creatorRef = Inr sr \<and>
         ((Kind (Reference sr) \<noteq> ''ReplicationController'' \<and>
           Kind (Reference sr) \<noteq> ''DaemonSet'' \<and> Kind (Reference sr) \<noteq> ''Job'') \<or>
          (Kind (Reference sr) = ''ReplicationController'' \<and>
           (\<exists>rc err. ReplicationControllers_Get (client opts) (server opts)
                        (RefNamespace (Reference sr)) (RefName (Reference sr)) = (rc, err) \<and>
                      (err \<noteq> None \<or> rc = None))) \<or>
          (Kind (Reference sr) = ''DaemonSet'' \<and>
           (\<exists>ds err. DaemonSets_Get (client opts) (server opts)
                        (RefNamespace (Reference sr)) (RefName (Reference sr)) = (ds, err) \<and>
                      (err \<noteq> None \<or> ds = None))) \<or>
          (Kind (Reference sr) = ''Job'' \<and>
           (\<exists>job err. Jobs_Get (client opts) (server opts)
                         (RefNamespace (Reference sr)) (RefName (Reference sr)) = (job, err) \<and>
                       (err \<noteq> None \<or> job = None)))))"
  shows "replicated opts p = Inr False \<and>
    classifyPods (opts\<lparr>Force := False\<rparr>) (p # rest) pods names =
      classifyPods (opts\<lparr>Force := False\<rparr>) rest pods (names @ [Name p]) \<and>
    classifyPods (opts\<lparr>Force := True\<rparr>) (p # rest) pods names =
      classifyPods (opts\<lparr>Force := True\<rparr>) rest (pods @ [p]) (names @ [Name p]) \<and>
    (\<forall>items blocked.
       Pods_List (client opts) (server opts) NamespaceAll (InfoName (nodeInfo opts)) = Inr items \<and>
       p \<in> set items \<and>
       (\<forall>q\<in>set items. \<not> isMirror q \<longrightarrow> (\<exists>r. replicated opts q = Inr r)) \<and>
       blocked = map Name (filter (\<lambda>q. \<not> isMirror q \<and> replicated opts q = Inr False) items) \<longrightarrow>
       Name p \<in> set blocked \<and>
       getPodsForDeletion (opts\<lparr>Force := False\<rparr>) =
         ((filter (\<lambda>q. \<not> isMirror q \<and> replicated opts q = Inr True) items,
           Some (Error (refusal (Join blocked '', '')))),
          opts\<lparr>Force := False\<rparr>) \<and>
       p \<notin> set (fst (fst (getPodsForDeletion (opts\<lparr>Force := False\<rparr>)))) \<and>
       getPodsForDeletion (opts\<lparr>Force := True\<rparr>) =
         ((filter (\<lambda>q. \<not> isMirror q) items, None),
          opts\<lparr>Force := True, out := out opts @ [Fprintf (warning (Join blocked '', ''))]\<rparr>) \<and>
       p \<in> set (fst (fst (getPodsForDeletion (opts\<lparr>Force := True\<rparr>)))))"
proof -
  have r: "replicated opts p = Inr False"
    using unowned
  proof
    assume "Annotations p CreatedByAnnotation = None"
    then show ?thesis by (simp add: replicated_def)
  next
    assume "\<exists>creatorRef sr.
         Annotations p CreatedByAnnotation = Some creatorRef \<and>
         DecodeInto (Decoder (factory opts) True) creatorRef = Inr sr \<and>
         ((Kind (Reference sr) \<noteq> ''ReplicationController'' \<and>
           Kind (Reference sr) \<noteq> ''DaemonSet'' \<and> Kind (Reference sr) \<noteq> ''Job'') \<or>
          (Kind (Reference sr) = ''ReplicationController'' \<and>
           (\<exists>rc err. ReplicationControllers_Get (client opts) (server opts)
                        (RefNamespace (Reference sr)) (RefName (Reference sr)) = (rc, err) \<and>
                      (err \<noteq> None \<or> rc = None))) \<or>
          (Kind (Reference sr) = ''DaemonSet'' \<and>
           (\<exists>ds err. DaemonSets_Get (client opts) (server opts)
                        (RefNamespace (Reference sr)) (RefName (Reference sr)) = (ds, err) \<and>
                      (err \<noteq> None \<or> ds = None))) \<or>
          (Kind (Reference sr) = ''Job'' \<and>
           (\<exists>job err. Jobs_Get (client opts) (server opts)
                         (RefNamespace (Reference sr)) (RefName (Reference sr)) = (job, err) \<and>
                       (err \<noteq> None \<or> job = None))))"
    then obtain creatorRef sr where
      ann: "Annotations p CreatedByAnnotation = Some creatorRef" and
      dec: "DecodeInto (Decoder (factory opts) True) creatorRef = Inr sr" and
      k: "(Kind (Reference sr) \<noteq> ''ReplicationController'' \<and>
           Kind (Reference sr) \<noteq> ''DaemonSet'' \<and> Kind (Reference sr) \<noteq> ''Job'') \<or>
          (Kind (Reference sr) = ''ReplicationController'' \<and>
           (\<exists>rc err. ReplicationControllers_Get (client opts) (server opts)
                        (RefNamespace (Reference sr)) (RefName (Reference sr)) = (rc, err) \<and>
                      (err \<noteq> None \<or> rc = None))) \<or>
          (Kind (Reference sr) = ''DaemonSet'' \<and>
           (\<exists>ds err. DaemonSets_Get (client opts) (server opts)
                        (RefNamespace (Reference sr)) (RefName (Reference sr)) = (ds, err) \<and>
                      (err \<noteq> None \<or> ds = None))) \<or>
          (Kind (Reference sr) = ''Job'' \<and>
           (\<exists>job err. Jobs_Get (client opts) (server opts)
                         (RefNamespace (Reference sr)) (RefName (Reference sr)) = (job, err) \<and>
                       (err \<noteq> None \<or> job = None)))"
      by blast
    from k have "\<not> creatorExists opts sr"
      by (elim disjE conjE exE) (simp_all add: creatorExists_def)
    with ann dec show ?thesis by (simp add: replicated_def)
  qed
  have s1: "classifyPods (opts\<lparr>Force := False\<rparr>) (p # rest) pods names =
      classifyPods (opts\<lparr>Force := False\<rparr>) rest pods (names @ [Name p])"
    using classifyPods_step [OF nm r, of False rest pods names] by simp
  have s2: "classifyPods (opts\<lparr>Force := True\<rparr>) (p # rest) pods names =
      classifyPods (opts\<lparr>Force := True\<rparr>) rest (pods @ [p]) (names @ [Name p])"
    using classifyPods_step [OF nm r, of True rest pods names] by simp
  have top: "\<forall>items blocked.
       Pods_List (client opts) (server opts) NamespaceAll (InfoName (nodeInfo opts)) = Inr items \<and>
       p \<in> set items \<and>
       (\<forall>q\<in>set items. \<not> isMirror q \<longrightarrow> (\<exists>r. replicated opts q = Inr r)) \<and>
       blocked = map Name (filter (\<lambda>q. \<not> isMirror q \<and> replicated opts q = Inr False) items) \<longrightarrow>
       Name p \<in> set blocked \<and>
       getPodsForDeletion (opts\<lparr>Force := False\<rparr>) =
         ((filter (\<lambda>q. \<not> isMirror q \<and> replicated opts q = Inr True) items,
           Some (Error (refusal (Join blocked '', '')))),
          opts\<lparr>Force := False\<rparr>) \<and>
       p \<notin> set (fst (fst (getPodsForDeletion (opts\<lparr>Force := False\<rparr>)))) \<and>
       getPodsForDeletion (opts\<lparr>Force := True\<rparr>) =
         ((filter (\<lambda>q. \<not> isMirror q) items, None),
          opts\<lparr>Force := True, out := out opts @ [Fprintf (warning (Join blocked '', ''))]\<rparr>) \<and>
       p \<in> set (fst (fst (getPodsForDeletion (opts\<lparr>Force := True\<rparr>))))"
  proof (intro allI impI)
    fix items blocked
    assume a: "Pods_List (client opts) (server opts) NamespaceAll (InfoName (nodeInfo opts)) =
         Inr items \<and>
       p \<in> set items \<and>
       (\<forall>q\<in>set items. \<not> isMirror q \<longrightarrow> (\<exists>r. replicated opts q = Inr r)) \<and>
       blocked = map Name (filter (\<lambda>q. \<not> isMirror q \<and> replicated opts q = Inr False) items)"
    then have list: "Pods_List (client opts) (server opts) NamespaceAll (InfoName (nodeInfo opts)) =
         Inr items"
      and p: "p \<in> set items"
      and ok: "\<forall>q\<in>set items. \<not> isMirror q \<longrightarrow> (\<exists>r. replicated opts q = Inr r)"
      and blocked: "blocked = map Name (filter (\<lambda>q. \<not> isMirror q \<and> replicated opts q = Inr False) items)"
      by simp_all
    have inb: "Name p \<in> set blocked"
      using p nm r by (simp add: blocked)
    then have ne: "blocked \<noteq> []" by auto
    have g1: "getPodsForDeletion (opts\<lparr>Force := False\<rparr>) =
         ((filter (\<lambda>q. \<not> isMirror q \<and> replicated opts q = Inr True) items,
           Some (Error (refusal (Join blocked '', '')))),
          opts\<lparr>Force := False\<rparr>)"
      using getPodsForDeletion_result_Force [OF list ok refl blocked, of False] ne by simp
    have all: "filter (\<lambda>q. \<not> isMirror q \<and> (replicated opts q = Inr True \<or> True)) items =
        filter (\<lambda>q. \<not> isMirror q) items"
      by simp
    have g2: "getPodsForDeletion (opts\<lparr>Force := True\<rparr>) =
         ((filter (\<lambda>q. \<not> isMirror q) items, None),
          opts\<lparr>Force := True, out := out opts @ [Fprintf (warning (Join blocked '', ''))]\<rparr>)"
      using getPodsForDeletion_result_Force [OF list ok refl blocked, of True] ne
      by (simp only: all if_False if_True not_True_eq_False)
    have n1: "p \<notin> set (fst (fst (getPodsForDeletion (opts\<lparr>Force := False\<rparr>))))"
      using r by (simp add: g1)
    have n2: "p \<in> set (fst (fst (getPodsForDeletion (opts\<lparr>Force := True\<rparr>))))"
      using p nm by (simp add: g2)
    from inb g1 n1 g2 n2
    show "Name p \<in> set blocked \<and>
       getPodsForDeletion (opts\<lparr>Force := False\<rparr>) =
         ((filter (\<lambda>q. \<not> isMirror q \<and> replicated opts q = Inr True) items,
           Some (Error (refusal (Join blocked '', '')))),
          opts\<lparr>Force := False\<rparr>) \<and>
       p \<notin> set (fst (fst (getPodsForDeletion (opts\<lparr>Force := False\<rparr>)))) \<and>
       getPodsForDeletion (opts\<lparr>Force := True\<rparr>) =
         ((filter (\<lambda>q. \<not> isMirror q) items, None),
          opts\<lparr>Force := True, out := out opts @ [Fprintf (warning (Join blocked '', ''))]\<rparr>) \<and>
       p \<in> set (fst (fst (getPodsForDeletion (opts\<lparr>Force := True\<rparr>))))"
      by blast
  qed
  from r s1 s2 top show ?thesis by blast
qed

lemma exampleOptions_Force:
  "(exampleOptions n u f)\<lparr>Force := g\<rparr> = exampleOptions n u g"
  by (simp add: exampleOptions_def)

theorem unmanaged_pod_blocks_unless_forced_witness:
  "\<not> isMirror barePod \<and> Annotations barePod CreatedByAnnotation = None \<and>
   getPodsForDeletion (exampleOptions ''foo'' True False) =
     (([ownedPod], Some (Error (refusal ''bare''))), exampleOptions ''foo'' True False) \<and>
   getPodsForDeletion (exampleOptions ''foo'' True True) =
     (([ownedPod, barePod], None),
      (exampleOptions ''foo'' True True)\<lparr>out := [Fprintf (warning ''bare'')]\<rparr>) \<and>
   Annotations orphanPod CreatedByAnnotation = Some ''rc-gone'' \<and>
   ReplicationControllers_Get exampleClient [] ''default'' ''rc-gone'' =
     (None, Some (Error ''not found'')) \<and>
   getPodsForDeletion (exampleOptions ''qux'' True False) =
     (([], Some (Error (refusal ''orphan''))), exampleOptions ''qux'' True False) \<and>
   getPodsForDeletion (exampleOptions ''qux'' True True) =
     (([orphanPod], None),
      (exampleOptions ''qux'' True True)\<lparr>out := [Fprintf (warning ''orphan'')]\<rparr>)"
proof -
  let ?foo = "exampleOptions ''foo'' True False"
  let ?qux = "exampleOptions ''qux'' True False"
  have nm1: "\<not> isMirror barePod" by (rule example_isMirror)
  have ann1: "Annotations barePod CreatedByAnnotation = None" by (simp add: barePod_def)
  have list1: "Pods_List (client ?foo) (server ?foo) NamespaceAll (InfoName (nodeInfo ?foo)) =
      Inr [ownedMirrorPod, ownedPod, barePod]"
    by (simp add: exampleOptions_sel example_List)
  have ok1: "\<forall>q\<in>set [ownedMirrorPod, ownedPod, barePod].
      \<not> isMirror q \<longrightarrow> (\<exists>r. replicated ?foo q = Inr r)"
    by (auto simp: example_replicated example_isMirror)
  have in1: "barePod \<in> set [ownedMirrorPod, ownedPod, barePod]" by simp
  note foo = unmanaged_pod_blocks_unless_forced [OF nm1 disjI1, OF ann1, of ?foo,
      THEN conjunct2, THEN conjunct2, THEN conjunct2, rule_format,
      OF conjI, OF list1 conjI, OF in1 conjI, OF ok1 refl]
  have nm2: "\<not> isMirror orphanPod" by (rule example_isMirror)
  have ann2: "Annotations orphanPod CreatedByAnnotation = Some ''rc-gone''"
    by (simp add: orphanPod_def)
  have get2: "ReplicationControllers_Get exampleClient [] ''default'' ''rc-gone'' =
      (None, Some (Error ''not found''))"
    by (rule example_Get)
  have unowned2: "Annotations orphanPod CreatedByAnnotation = None \<or>
      (\<exists>creatorRef sr.
         Annotations orphanPod CreatedByAnnotation = Some creatorRef \<and>
         DecodeInto (Decoder (factory ?qux) True) creatorRef = Inr sr \<and>
         ((Kind (Reference sr) \<noteq> ''ReplicationController'' \<and>
           Kind (Reference sr) \<noteq> ''DaemonSet'' \<and> Kind (Reference sr) \<noteq> ''Job'') \<or>
          (Kind (Reference sr) = ''ReplicationController'' \<and>
           (\<exists>rc err. ReplicationControllers_Get (client ?qux) (server ?qux)
                        (RefNamespace (Reference sr)) (RefName (Reference sr)) = (rc, err) \<and>
                      (err \<noteq> None \<or> rc = None))) \<or>
          (Kind (Reference sr) = ''DaemonSet'' \<and>
           (\<exists>ds err. DaemonSets_Get (client ?qux) (server ?qux)
                        (RefNamespace (Reference sr)) (RefName (Reference sr)) = (ds, err) \<and>
                      (err \<noteq> None \<or> ds = None))) \<or>
          (Kind (Reference sr) = ''Job'' \<and>
           (\<exists>job err. Jobs_Get (client ?qux) (server ?qux)
                         (RefNamespace (Reference sr)) (RefName (Reference sr)) = (job, err) \<and>
                       (err \<noteq> None \<or> job = None)))))"
    by (simp add: ann2 exampleOptions_sel exampleFactory_sel example_decode example_Get)
  have list2: "Pods_List (client ?qux) (server ?qux) NamespaceAll (InfoName (nodeInfo ?qux)) =
      Inr [orphanPod]"
    by (simp add: exampleOptions_sel example_List)
  have ok2: "\<forall>q\<in>set [orphanPod]. \<not> isMirror q \<longrightarrow> (\<exists>r. replicated ?qux q = Inr r)"
    by (auto simp: example_replicated)
  have in2: "orphanPod \<in> set [orphanPod]" by simp
  note qux = unmanaged_pod_blocks_unless_forced [OF nm2 unowned2,
      THEN conjunct2, THEN conjunct2, THEN conjunct2, rule_format,
      OF conjI, OF list2 conjI, OF in2 conjI, OF ok2 refl]
  have 1: "getPodsForDeletion (exampleOptions ''foo'' True False) =
     (([ownedPod], Some (Error (refusal ''bare''))), exampleOptions ''foo'' True False)"
    using foo [THEN conjunct2, THEN conjunct1]
    by (simp add: exampleOptions_Force example_isMirror example_replicated example_names)
  have 2: "getPodsForDeletion (exampleOptions ''foo'' True True) =
     (([ownedPod, barePod], None),
      (exampleOptions ''foo'' True True)\<lparr>out := [Fprintf (warning ''bare'')]\<rparr>)"
    using foo [THEN conjunct2, THEN conjunct2, THEN conjunct2, THEN conjunct1]
    by (simp add: exampleOptions_Force exampleOptions_sel example_isMirror example_replicated
        example_names)
  have 3: "getPodsForDeletion (exampleOptions ''qux'' True False) =
     (([], Some (Error (refusal ''orphan''))), exampleOptions ''qux'' True False)"
    using qux [THEN conjunct2, THEN conjunct1]
    by (simp add: exampleOptions_Force example_isMirror example_replicated example_names)
  have 4: "getPodsForDeletion (exampleOptions ''qux'' True True) =
     (([orphanPod], None),
      (exampleOptions ''qux'' True True)\<lparr>out := [Fprintf (warning ''orphan'')]\<rparr>)"
    using qux [THEN conjunct2, THEN conjunct2, THEN conjunct2, THEN conjunct1]
    by (simp add: exampleOptions_Force exampleOptions_sel example_isMirror example_replicated
        example_names)
  from nm1 ann1 1 2 ann2 get2 3 4 show ?thesis by blast
qed

text \<open>
  Claim C2, as stated, fails on a mirror pod: the pod static-web of the example carries the
  mirror annotation and an owner reference that decodes to the ReplicationController rc1,
  whose lookup succeeds with a pointer that is not nil; the loop skips it, and it is not
  among the approved pods, with or without the force flag. It also fails when an earlier pod
  of the listing does not decode: on the node corge the pod web-1, which is not a mirror pod
  and is owned by rc1, comes after such a pod; the loop returns before it reaches web-1,
  and no pod is approved, with or without the force flag.
\<close>

theorem managed_mirror_pod_counterexample:
  "isMirror ownedMirrorPod \<and>
   Annotations ownedMirrorPod CreatedByAnnotation = Some ''rc1'' \<and>
   DecodeInto (Decoder (factory (exampleOptions ''foo'' True False)) True) ''rc1'' =
     Inr \<lparr>Reference = \<lparr>Kind = ''ReplicationController'', RefNamespace = ''default'',
                        RefName = ''rc1''\<rparr>\<rparr> \<and>
   ReplicationControllers_Get (client (exampleOptions ''foo'' True False))
       (server (exampleOptions ''foo'' True False)) ''default'' ''rc1'' =
     (Some (Controller ''default'' ''rc1''), None) \<and>
   Pods_List (client (exampleOptions ''foo'' True False))
       (server (exampleOptions ''foo'' True False)) NamespaceAll
       (InfoName (nodeInfo (exampleOptions ''foo'' True False))) =
     Inr [ownedMirrorPod, ownedPod, barePod] \<and>
   fst (fst (getPodsForDeletion (exampleOptions ''foo'' True False))) = [ownedPod] \<and>
   fst (fst (getPodsForDeletion (exampleOptions ''foo'' True True))) = [ownedPod, barePod] \<and>
   ownedMirrorPod \<notin> set [ownedPod, barePod] \<and>
   \<not> isMirror ownedPod \<and>
   Annotations ownedPod CreatedByAnnotation = Some ''rc1'' \<and>
   Pods_List (client (exampleOptions ''corge'' True False))
       (server (exampleOptions ''corge'' True False)) NamespaceAll
       (InfoName (nodeInfo (exampleOptions ''corge'' True False))) =
     Inr [malformedPod, ownedPod, barePod] \<and>
   getPodsForDeletion (exampleOptions ''corge'' True False) =
     (([], Some (Error ''invalid character'')), exampleOptions ''corge'' True False) \<and>
   getPodsForDeletion (exampleOptions ''corge'' True True) =
     (([], Some (Error ''invalid character'')), exampleOptions ''corge'' True True)"
proof -
  have ne: "ownedMirrorPod \<noteq> ownedPod" "ownedMirrorPod \<noteq> barePod"
    by (simp_all add: ownedMirrorPod_def ownedPod_def barePod_def)
  have corge: "\<And>f. getPodsForDeletion (exampleOptions ''corge'' True f) =
      (([], Some (Error ''invalid character'')), exampleOptions ''corge'' True f)"
    by (simp add: getPodsForDeletion_def exampleOptions_sel example_List example_isMirror
        example_replicated)
  from ne show ?thesis
    by (simp add: example_isMirror ownedMirrorPod_def [THEN arg_cong, of Annotations]
        ownedPod_def [THEN arg_cong, of Annotations]
        exampleOptions_sel exampleFactory_sel example_decode example_Get example_List
        example_getPodsForDeletion_foo corge)
qed

text \<open>
  Claim C2, amended. A pod that is not a mirror pod and whose owner reference decodes to a
  ReplicationController, DaemonSet or Job whose lookup returns no error and a pointer that
  is not nil is managed, whatever the force flag: the step of the loop on the pod appends
  it to the approved pods and leaves the blocked names as they are, and for a listing that
  holds the pod and is classified to the end (the listing succeeds and no pod of it fails
  to decode), the pods getPodsForDeletion returns include it.
\<close>

theorem managed_pod_is_approved:
  assumes nm: "\<not> isMirror p"
    and ann: "Annotations p CreatedByAnnotation = Some creatorRef"
    and dec: "DecodeInto (Decoder (factory opts) True) creatorRef = Inr sr"
    and found:
      "(Kind (Reference sr) = ''ReplicationController'' \<and>
        ReplicationControllers_Get (client opts) (server opts)
          (RefNamespace (Reference sr)) (RefName (Reference sr)) = (Some c, None)) \<or>
       (Kind (Reference sr) = ''DaemonSet'' \<and>
        DaemonSets_Get (client opts) (server opts)
          (RefNamespace (Reference sr)) (RefName (Reference sr)) = (Some c, None)) \<or>
       (Kind (Reference sr) = ''Job'' \<and>
        Jobs_Get (client opts) (server opts)
          (RefNamespace (Reference sr)) (RefName (Reference sr)) = (Some c, None))"
  shows "\<forall>f. replicated (opts\<lparr>Force := f\<rparr>) p = Inr True \<and>
    classifyPods (opts\<lparr>Force := f\<rparr>) (p # rest) pods names =
      classifyPods (opts\<lparr>Force := f\<rparr>) rest (pods @ [p]) names \<and>
    (\<forall>items.
       Pods_List (client opts) (server opts) NamespaceAll (InfoName (nodeInfo opts)) = Inr items \<and>
       p \<in> set items \<and>
       (\<forall>q\<in>set items. \<not> isMirror q \<longrightarrow> (\<exists>r. replicated opts q = Inr r)) \<longrightarrow>
       p \<in> set (fst (fst (getPodsForDeletion (opts\<lparr>Force := f\<rparr>)))))"
proof (intro allI conjI impI)
  fix f
  from found have "creatorExists opts sr"
    by (elim disjE conjE) (simp_all add: creatorExists_def)
  with ann dec have r: "replicated opts p = Inr True"
    by (simp add: replicated_def)
  then show "replicated (opts\<lparr>Force := f\<rparr>) p = Inr True"
    by (simp add: replicated_Force)
  show "classifyPods (opts\<lparr>Force := f\<rparr>) (p # rest) pods names =
      classifyPods (opts\<lparr>Force := f\<rparr>) rest (pods @ [p]) names"
    using classifyPods_step [OF nm r, of f rest pods names] by simp
  fix items
  assume a: "Pods_List (client opts) (server opts) NamespaceAll (InfoName (nodeInfo opts)) =
      Inr items \<and>
    p \<in> set items \<and>
    (\<forall>q\<in>set items. \<not> isMirror q \<longrightarrow> (\<exists>r. replicated opts q = Inr r))"
  then have list: "Pods_List (client opts) (server opts) NamespaceAll (InfoName (nodeInfo opts)) =
      Inr items"
    and p: "p \<in> set items"
    and ok: "\<forall>q\<in>set items. \<not> isMirror q \<longrightarrow> (\<exists>r. replicated opts q = Inr r)"
    by simp_all
  have "fst (fst (getPodsForDeletion (opts\<lparr>Force := f\<rparr>))) =
      filter (\<lambda>q. \<not> isMirror q \<and> (replicated opts q = Inr True \<or> f)) items"
    by (simp add: getPodsForDeletion_result_Force [OF list ok refl refl])
  with p nm r show "p \<in> set (fst (fst (getPodsForDeletion (opts\<lparr>Force := f\<rparr>))))"
    by simp
qed

theorem managed_pod_is_approved_witness:
  "\<not> isMirror ownedPod \<and>
   Annotations ownedPod CreatedByAnnotation = Some ''rc1'' \<and>
   replicated (exampleOptions ''foo'' True False) ownedPod = Inr True \<and>
   replicated (exampleOptions ''foo'' True True) ownedPod = Inr True \<and>
   classifyPods (exampleOptions ''foo'' True False) [ownedPod] [] [] = Inr ([ownedPod], []) \<and>
   ownedPod \<in> set (fst (fst (getPodsForDeletion (exampleOptions ''foo'' True False)))) \<and>
   ownedPod \<in> set (fst (fst (getPodsForDeletion (exampleOptions ''foo'' True True))))"
proof -
  let ?foo = "exampleOptions ''foo'' True False"
  have nm: "\<not> isMirror ownedPod" by (rule example_isMirror)
  have ann: "Annotations ownedPod CreatedByAnnotation = Some ''rc1''"
    by (simp add: ownedPod_def)
  have dec: "DecodeInto (Decoder (factory ?foo) True) ''rc1'' =
      Inr \<lparr>Reference = \<lparr>Kind = ''ReplicationController'', RefNamespace = ''default'',
                         RefName = ''rc1''\<rparr>\<rparr>"
    by (simp add: exampleOptions_sel exampleFactory_sel example_decode)
  have found: "Kind (Reference \<lparr>Reference = \<lparr>Kind = ''ReplicationController'',
          RefNamespace = ''default'', RefName = ''rc1''\<rparr>\<rparr>) = ''ReplicationController'' \<and>
      ReplicationControllers_Get (client ?foo) (server ?foo)
        (RefNamespace (Reference \<lparr>Reference = \<lparr>Kind = ''ReplicationController'',
          RefNamespace = ''default'', RefName = ''rc1''\<rparr>\<rparr>))
        (RefName (Reference \<lparr>Reference = \<lparr>Kind = ''ReplicationController'',
          RefNamespace = ''default'', RefName = ''rc1''\<rparr>\<rparr>)) =
      (Some (Controller ''default'' ''rc1''), None)"
    by (simp add: exampleOptions_sel example_Get)
  have list: "Pods_List (client ?foo) (server ?foo) NamespaceAll (InfoName (nodeInfo ?foo)) =
      Inr [ownedMirrorPod, ownedPod, barePod]"
    by (simp add: exampleOptions_sel example_List)
  have ok: "\<forall>q\<in>set [ownedMirrorPod, ownedPod, barePod].
      \<not> isMirror q \<longrightarrow> (\<exists>r. replicated ?foo q = Inr r)"
    by (auto simp: example_replicated example_isMirror)
  have mem: "ownedPod \<in> set [ownedMirrorPod, ownedPod, barePod]" by simp
  note inst = managed_pod_is_approved [OF nm ann dec disjI1, OF found, rule_format,
      unfolded exampleOptions_Force]
  have 1: "\<And>f. replicated (exampleOptions ''foo'' True f) ownedPod = Inr True"
    using inst [THEN conjunct1] .
  have 2: "classifyPods (exampleOptions ''foo'' True False) [ownedPod] [] [] = Inr ([ownedPod], [])"
    using inst [THEN conjunct2, THEN conjunct1, of False "[]" "[]" "[]"] by simp
  have 3: "\<And>f. ownedPod \<in> set (fst (fst (getPodsForDeletion (exampleOptions ''foo'' True f))))"
    using inst [THEN conjunct2, THEN conjunct2, rule_format, OF conjI, OF list conjI, OF mem ok] .
  from nm ann 1 [of False] 1 [of True] 2 3 [of False] 3 [of True] show ?thesis by blast
qed

text \<open>
  Claim C1, as stated, fails where it says that the approved set is empty: on the example
  node foo, whose listing holds a managed pod and an unmanaged one, getPodsForDeletion
  without the force flag returns the refusal together with the managed pod. It also fails
  when a later pod does not decode: on the node quux, the pod bare is classified unmanaged
  and the pod after it fails to decode, and the error returned is the decoder's, which
  carries no name.
\<close>

theorem refusal_keeps_approved_pods_counterexample:
  "Pods_List (client (exampleOptions ''foo'' True False))
       (server (exampleOptions ''foo'' True False)) NamespaceAll
       (InfoName (nodeInfo (exampleOptions ''foo'' True False))) =
     Inr [ownedMirrorPod, ownedPod, barePod] \<and>
   \<not> Force (exampleOptions ''foo'' True False) \<and>
   \<not> isMirror barePod \<and>
   replicated (exampleOptions ''foo'' True False) barePod = Inr False \<and>
   getPodsForDeletion (exampleOptions ''foo'' True False) =
     (([ownedPod], Some (Error (refusal ''bare''))), exampleOptions ''foo'' True False) \<and>
   fst (fst (getPodsForDeletion (exampleOptions ''foo'' True False))) \<noteq> [] \<and>
   Pods_List (client (exampleOptions ''quux'' True False))
       (server (exampleOptions ''quux'' True False)) NamespaceAll
       (InfoName (nodeInfo (exampleOptions ''quux'' True False))) =
     Inr [barePod, malformedPod] \<and>
   classifyPods (exampleOptions ''quux'' True False) [barePod] [] [] = Inr ([], [''bare'']) \<and>
   getPodsForDeletion (exampleOptions ''quux'' True False) =
     (([], Some (Error ''invalid character'')), exampleOptions ''quux'' True False)"
  by (simp add: exampleOptions_sel example_List example_isMirror example_replicated
      example_getPodsForDeletion_foo example_names getPodsForDeletion_def)

text \<open>
  Claim C1, amended. When the listing succeeds, no pod of it fails to decode, at least one
  pod is classified unmanaged and the force flag is not set, getPodsForDeletion returns an
  error whose message holds the names of all unmanaged pods, in the order of the listing
  and joined by a comma and a space, together with the managed pods of the listing (none
  only when the listing has none). RunDrain then returns that error in the state the cordon
  left: it sends no delete request. Whatever the cordon returned, RunDrain ends in the
  state the cordon left.
\<close>

theorem unmanaged_pods_refuse_drain:
  assumes list: "Pods_List (client opts) (server opts) NamespaceAll (InfoName (nodeInfo opts)) =
      Inr items"
    and ok: "\<forall>q\<in>set items. \<not> isMirror q \<longrightarrow> (\<exists>r. replicated opts q = Inr r)"
    and unmanaged: "\<exists>p\<in>set items. \<not> isMirror p \<and> replicated opts p = Inr False"
    and nf: "\<not> Force opts"
    and blocked: "blocked = map Name (filter (\<lambda>q. \<not> isMirror q \<and> replicated opts q = Inr False) items)"
  shows "getPodsForDeletion opts =
      ((filter (\<lambda>q. \<not> isMirror q \<and> replicated opts q = Inr True) items,
        Some (Error (refusal (Join blocked '', '')))),
       opts) \<and>
    (\<forall>opts0. RunCordonOrUncordon True opts0 = (Return None, opts) \<longrightarrow>
       RunDrain opts0 = (Return (Some (Error (refusal (Join blocked '', '')))), opts) \<and>
       requests (snd (RunDrain opts0)) = requests opts) \<and>
    (\<forall>opts0 r. RunCordonOrUncordon True opts0 = (r, opts) \<longrightarrow> snd (RunDrain opts0) = opts)"
proof -
  from unmanaged have "blocked \<noteq> []"
    by (auto simp: blocked filter_empty_conv)
  with getPodsForDeletion_result [OF list ok refl blocked] nf
  have g: "getPodsForDeletion opts =
      ((filter (\<lambda>q. \<not> isMirror q \<and> replicated opts q = Inr True) items,
        Some (Error (refusal (Join blocked '', '')))),
       opts)"
    by simp
  have "\<forall>opts0. RunCordonOrUncordon True opts0 = (Return None, opts) \<longrightarrow>
       RunDrain opts0 = (Return (Some (Error (refusal (Join blocked '', '')))), opts) \<and>
       requests (snd (RunDrain opts0)) = requests opts"
  proof (intro allI impI)
    fix opts0
    assume "RunCordonOrUncordon True opts0 = (Return None, opts)"
    from RunDrain_classify_error [OF this g]
    show "RunDrain opts0 = (Return (Some (Error (refusal (Join blocked '', '')))), opts) \<and>
       requests (snd (RunDrain opts0)) = requests opts"
      by simp
  qed
  moreover have "\<forall>opts0 r. RunCordonOrUncordon True opts0 = (r, opts) \<longrightarrow>
      snd (RunDrain opts0) = opts"
    using RunDrain_not_classified [OF g] by blast
  ultimately show ?thesis using g by blast
qed

lemma example_cordon_any:
  "n \<noteq> ''locked'' \<Longrightarrow>
   RunCordonOrUncordon True (exampleOptions n False f) =
     (Return None,
      (exampleOptions n True f)
        \<lparr>out := [PrintSuccess ''node'' n ''cordoned''],
          server := [''replace '' @ n],
          requests := [ReplaceRequest nodeMapping ''default'' n True (exampleNode True)]\<rparr>)"
  by (simp add: RunCordonOrUncordon_def exampleOptions_def exampleFactory_sel nodeMapping_sel
      exampleNode_def exampleClient_Replace changed_def Let_def)

theorem unmanaged_pods_refuse_drain_witness:
  "getPodsForDeletion
     ((exampleOptions ''foo'' True False)
        \<lparr>out := [PrintSuccess ''node'' ''foo'' ''cordoned''],
          server := [''replace foo''],
          requests := [ReplaceRequest nodeMapping ''default'' ''foo'' True (exampleNode True)]\<rparr>) =
     (([ownedPod], Some (Error (refusal ''bare''))),
      (exampleOptions ''foo'' True False)
        \<lparr>out := [PrintSuccess ''node'' ''foo'' ''cordoned''],
          server := [''replace foo''],
          requests := [ReplaceRequest nodeMapping ''default'' ''foo'' True (exampleNode True)]\<rparr>) \<and>
   RunDrain (exampleOptions ''foo'' False False) =
     (Return (Some (Error (refusal ''bare''))),
      (exampleOptions ''foo'' True False)
        \<lparr>out := [PrintSuccess ''node'' ''foo'' ''cordoned''],
          server := [''replace foo''],
          requests := [ReplaceRequest nodeMapping ''default'' ''foo'' True (exampleNode True)]\<rparr>) \<and>
   requests (snd (RunDrain (exampleOptions ''foo'' False False))) =
     [ReplaceRequest nodeMapping ''default'' ''foo'' True (exampleNode True)]"
proof -
  let ?opts = "(exampleOptions ''foo'' True False)
        \<lparr>out := [PrintSuccess ''node'' ''foo'' ''cordoned''],
          server := [''replace foo''],
          requests := [ReplaceRequest nodeMapping ''default'' ''foo'' True (exampleNode True)]\<rparr>"
  have list: "Pods_List (client ?opts) (server ?opts) NamespaceAll (InfoName (nodeInfo ?opts)) =
      Inr [ownedMirrorPod, ownedPod, barePod]"
    by (simp add: exampleOptions_sel example_List)
  have rep: "replicated ?opts ownedPod = Inr True" "replicated ?opts barePod = Inr False"
    by (simp_all add: example_replicated_any exampleOptions_sel)
  have ok: "\<forall>q\<in>set [ownedMirrorPod, ownedPod, barePod].
      \<not> isMirror q \<longrightarrow> (\<exists>r. replicated ?opts q = Inr r)"
    by (auto simp: rep example_isMirror)
  have unmanaged: "\<exists>p\<in>set [ownedMirrorPod, ownedPod, barePod].
      \<not> isMirror p \<and> replicated ?opts p = Inr False"
    by (simp add: rep example_isMirror)
  have nf: "\<not> Force ?opts" by (simp add: exampleOptions_sel)
  have cordon: "RunCordonOrUncordon True (exampleOptions ''foo'' False False) = (Return None, ?opts)"
    by (simp add: example_cordon_any)
  note inst = unmanaged_pods_refuse_drain [OF list ok unmanaged nf refl]
  have b: "Join (map Name (filter (\<lambda>q. \<not> isMirror q \<and> replicated ?opts q = Inr False)
      [ownedMirrorPod, ownedPod, barePod])) '', '' = ''bare''"
    by (simp add: rep example_isMirror example_names)
  have a: "filter (\<lambda>q. \<not> isMirror q \<and> replicated ?opts q = Inr True)
      [ownedMirrorPod, ownedPod, barePod] = [ownedPod]"
    by (simp add: rep example_isMirror)
  from inst [THEN conjunct1] have 1: "getPodsForDeletion ?opts =
      (([ownedPod], Some (Error (refusal ''bare''))), ?opts)"
    unfolding a b .
  from inst [THEN conjunct2, THEN conjunct1, rule_format, OF cordon]
  have 2: "RunDrain (exampleOptions ''foo'' False False) =
      (Return (Some (Error (refusal ''bare''))), ?opts) \<and>
    requests (snd (RunDrain (exampleOptions ''foo'' False False))) = requests ?opts"
    unfolding b .
  from 1 2 show ?thesis by simp
qed

subsection \<open>deletePods\<close>

lemma deleteOptions_cong:
  "GracePeriodSeconds a = GracePeriodSeconds b \<Longrightarrow> deleteOptions a = deleteOptions b"
  by (simp add: deleteOptions_def)

lemma deletePods_Cons:
  assumes "Pods_Delete (client opts) (server opts) (Namespace p) (Name p) (deleteOptions opts) =
      (err, w)"
    and "opts1 = opts\<lparr>server := w,
        requests := requests opts @ [DeleteRequest (Namespace p) (Name p) (deleteOptions opts)]\<rparr>"
  shows "deletePods opts (p # rest) =
     (if err \<noteq> None then (err, opts1)
      else deletePods (opts1\<lparr>out := out opts @ [PrintSuccess ''pod'' (Name p) ''deleted'']\<rparr>) rest)"
  using assms by (simp add: Let_def)

lemma deletePods_frame:
  "deletePods opts pods = (err, opts') \<Longrightarrow>
     client opts' = client opts \<and> factory opts' = factory opts \<and> Force opts' = Force opts \<and>
     GracePeriodSeconds opts' = GracePeriodSeconds opts \<and> nodeInfo opts' = nodeInfo opts"
proof (induction pods arbitrary: opts)
  case Nil
  then show ?case by auto
next
  case (Cons p rest)
  obtain e w where d: "Pods_Delete (client opts) (server opts) (Namespace p) (Name p)
      (deleteOptions opts) = (e, w)"
    by (cases "Pods_Delete (client opts) (server opts) (Namespace p) (Name p) (deleteOptions opts)")
  note step = deletePods_Cons [OF d refl, of rest]
  show ?case
  proof (cases e)
    case (Some x)
    with step Cons.prems show ?thesis by auto
  next
    case None
    with step Cons.prems have "deletePods
        (opts\<lparr>server := w,
              requests := requests opts @ [DeleteRequest (Namespace p) (Name p) (deleteOptions opts)],
              out := out opts @ [PrintSuccess ''pod'' (Name p) ''deleted'']\<rparr>) rest = (err, opts')"
      by simp
    from Cons.IH [OF this] show ?thesis by simp
  qed
qed

lemma deletePods_success:
  "deletePods opts pods = (None, opts') \<Longrightarrow>
     requests opts' = requests opts @
       map (\<lambda>q. DeleteRequest (Namespace q) (Name q) (deleteOptions opts)) pods \<and>
     out opts' = out opts @ map (\<lambda>q. PrintSuccess ''pod'' (Name q) ''deleted'') pods"
proof (induction pods arbitrary: opts)
  case Nil
  then show ?case by auto
next
  case (Cons p rest)
  obtain e w where d: "Pods_Delete (client opts) (server opts) (Namespace p) (Name p)
      (deleteOptions opts) = (e, w)"
    by (cases "Pods_Delete (client opts) (server opts) (Namespace p) (Name p) (deleteOptions opts)")
  note step = deletePods_Cons [OF d refl, of rest]
  let ?next = "opts\<lparr>server := w,
      requests := requests opts @ [DeleteRequest (Namespace p) (Name p) (deleteOptions opts)],
      out := out opts @ [PrintSuccess ''pod'' (Name p) ''deleted'']\<rparr>"
  show ?case
  proof (cases e)
    case (Some x)
    with step Cons.prems show ?thesis by auto
  next
    case None
    with step Cons.prems have r: "deletePods ?next rest = (None, opts')"
      by simp
    have "deleteOptions ?next = deleteOptions opts"
      by (rule deleteOptions_cong) simp
    with Cons.IH [OF r] show ?thesis by simp
  qed
qed

lemma deletePods_append:
  "deletePods opts pre = (None, opts1) \<Longrightarrow> deletePods opts (pre @ post) = deletePods opts1 post"
proof (induction pre arbitrary: opts)
  case Nil
  then show ?case by simp
next
  case (Cons p rest)
  obtain e w where d: "Pods_Delete (client opts) (server opts) (Namespace p) (Name p)
      (deleteOptions opts) = (e, w)"
    by (cases "Pods_Delete (client opts) (server opts) (Namespace p) (Name p) (deleteOptions opts)")
  let ?next = "opts\<lparr>server := w,
      requests := requests opts @ [DeleteRequest (Namespace p) (Name p) (deleteOptions opts)],
      out := out opts @ [PrintSuccess ''pod'' (Name p) ''deleted'']\<rparr>"
  show ?case
  proof (cases e)
    case (Some x)
    with deletePods_Cons [OF d refl, of rest] Cons.prems show ?thesis by auto
  next
    case None
    with deletePods_Cons [OF d refl, of rest] Cons.prems
    have r: "deletePods ?next rest = (None, opts1)" by simp
    from None deletePods_Cons [OF d refl, of "rest @ post"]
    have "deletePods opts ((p # rest) @ post) = deletePods ?next (rest @ post)" by simp
    with Cons.IH [OF r] show ?thesis by simp
  qed
qed

lemma deletePods_prefix:
  "\<exists>k\<le>length pods. requests (snd (deletePods opts pods)) =
     requests opts @ map (\<lambda>q. DeleteRequest (Namespace q) (Name q) (deleteOptions opts)) (take k pods)"
proof (induction pods arbitrary: opts)
  case Nil
  show ?case by simp
next
  case (Cons p rest)
  obtain e w where d: "Pods_Delete (client opts) (server opts) (Namespace p) (Name p)
      (deleteOptions opts) = (e, w)"
    by (cases "Pods_Delete (client opts) (server opts) (Namespace p) (Name p) (deleteOptions opts)")
  let ?next = "opts\<lparr>server := w,
      requests := requests opts @ [DeleteRequest (Namespace p) (Name p) (deleteOptions opts)],
      out := out opts @ [PrintSuccess ''pod'' (Name p) ''deleted'']\<rparr>"
  show ?case
  proof (cases e)
    case (Some x)
    with deletePods_Cons [OF d refl, of rest]
    have "requests (snd (deletePods opts (p # rest))) =
        requests opts @ map (\<lambda>q. DeleteRequest (Namespace q) (Name q) (deleteOptions opts))
          (take 1 (p # rest))"
      by simp
    then show ?thesis by (intro exI [of _ 1]) simp
  next
    case None
    have o: "deleteOptions ?next = deleteOptions opts"
      by (rule deleteOptions_cong) simp
    from Cons.IH [of ?next] obtain k where k: "k \<le> length rest"
      "requests (snd (deletePods ?next rest)) =
        requests ?next @ map (\<lambda>q. DeleteRequest (Namespace q) (Name q) (deleteOptions ?next))
          (take k rest)"
      by blast
    from None deletePods_Cons [OF d refl, of rest]
    have "deletePods opts (p # rest) = deletePods ?next rest" by simp
    with k o have "requests (snd (deletePods opts (p # rest))) =
        requests opts @ map (\<lambda>q. DeleteRequest (Namespace q) (Name q) (deleteOptions opts))
          (take (Suc k) (p # rest))"
      by simp
    with k(1) show ?thesis by (intro exI [of _ "Suc k"]) simp
  qed
qed

text \<open>
  Claim C7. deletePods sends one delete request per pod, in the order of the list, and stops
  at the first one that fails. When the deletions of the pods before a pod succeed and that
  pod's deletion fails, deletePods returns that error; the requests sent are the deletions
  of the pods before it and its own, in order, so the pods after it receive none; the
  server is left in the state the failed call returned, after the deletions that succeeded,
  and nothing is sent to undo them; the node object is untouched and no replace request is
  sent, so the cordon stands. RunDrain returns the error in that state, without the
  "drained" status.
\<close>

theorem deletePods_stops_at_first_failure:
  assumes before: "deletePods opts pre = (None, opts1)"
    and fail: "Pods_Delete (client opts) (server opts1) (Namespace p) (Name p) (deleteOptions opts) =
      (Some e, w)"
    and final: "opts2 = opts1\<lparr>server := w,
        requests := requests opts1 @ [DeleteRequest (Namespace p) (Name p) (deleteOptions opts)]\<rparr>"
  shows "deletePods opts (pre @ p # post) = (Some e, opts2) \<and>
    requests opts2 = requests opts @
      map (\<lambda>q. DeleteRequest (Namespace q) (Name q) (deleteOptions opts)) (pre @ [p]) \<and>
    out opts2 = out opts @ map (\<lambda>q. PrintSuccess ''pod'' (Name q) ''deleted'') pre \<and>
    server opts2 = w \<and>
    nodeInfo opts2 = nodeInfo opts \<and>
    (\<forall>opts0 opts'. RunCordonOrUncordon True opts0 = (Return None, opts') \<and>
        getPodsForDeletion opts' = ((pre @ p # post, None), opts) \<longrightarrow>
        RunDrain opts0 = (Return (Some e), opts2)) \<and>
    (\<forall>pods (s :: 'w DrainOptions). \<exists>k\<le>length pods.
        requests (snd (deletePods s pods)) =
          requests s @
            map (\<lambda>q. DeleteRequest (Namespace q) (Name q) (deleteOptions s)) (take k pods))"
proof -
  note frame = deletePods_frame [OF before]
  note log = deletePods_success [OF before]
  have opt: "deleteOptions opts1 = deleteOptions opts"
    by (rule deleteOptions_cong) (simp add: frame)
  have fail1: "Pods_Delete (client opts1) (server opts1) (Namespace p) (Name p)
      (deleteOptions opts1) = (Some e, w)"
    using fail by (simp add: frame opt)
  have final1: "opts2 = opts1\<lparr>server := w,
      requests := requests opts1 @ [DeleteRequest (Namespace p) (Name p) (deleteOptions opts1)]\<rparr>"
    by (simp add: final opt)
  have "deletePods opts1 (p # post) = (Some e, opts2)"
    using deletePods_Cons [OF fail1 final1, of post] by simp
  with deletePods_append [OF before, of "p # post"]
  have run: "deletePods opts (pre @ p # post) = (Some e, opts2)"
    by simp
  have req: "requests opts2 = requests opts @
      map (\<lambda>q. DeleteRequest (Namespace q) (Name q) (deleteOptions opts)) (pre @ [p])"
    by (simp add: final log)
  have outp: "out opts2 = out opts @ map (\<lambda>q. PrintSuccess ''pod'' (Name q) ''deleted'') pre"
    by (simp add: final log)
  have srv: "server opts2 = w" by (simp add: final)
  have node: "nodeInfo opts2 = nodeInfo opts" by (simp add: final frame)
  have drain: "\<forall>opts0 opts'. RunCordonOrUncordon True opts0 = (Return None, opts') \<and>
        getPodsForDeletion opts' = ((pre @ p # post, None), opts) \<longrightarrow>
        RunDrain opts0 = (Return (Some e), opts2)"
  proof (intro allI impI)
    fix opts0 opts'
    assume a: "RunCordonOrUncordon True opts0 = (Return None, opts') \<and>
        getPodsForDeletion opts' = ((pre @ p # post, None), opts)"
    from RunDrain_delete [OF a [THEN conjunct1] a [THEN conjunct2] run]
    show "RunDrain opts0 = (Return (Some e), opts2)" by simp
  qed
  have order: "\<forall>pods (s :: 'w DrainOptions). \<exists>k\<le>length pods.
        requests (snd (deletePods s pods)) =
          requests s @
            map (\<lambda>q. DeleteRequest (Namespace q) (Name q) (deleteOptions s)) (take k pods)"
    by (intro allI deletePods_prefix)
  from run req outp srv node drain order show ?thesis by blast
qed

lemma example_Delete:
  "Pods_Delete exampleClient w ns ''stuck'' d = (Some (Error ''delete failed''), w)"
  "Pods_Delete exampleClient w ns ''web-1'' d = (None, w @ [''delete web-1''])"
  by (simp_all add: exampleClient_def)

theorem deletePods_stops_at_first_failure_witness:
  "deletePods
     ((exampleOptions ''bar'' True False)
        \<lparr>out := [PrintSuccess ''node'' ''bar'' ''already cordoned'']\<rparr>)
     [ownedPod, stuckPod, ownedPod] =
     (Some (Error ''delete failed''),
      (exampleOptions ''bar'' True False)
        \<lparr>server := [''delete web-1''],
          requests := [DeleteRequest ''default'' ''web-1'' \<lparr>DeleteGracePeriodSeconds = None\<rparr>,
                       DeleteRequest ''default'' ''stuck'' \<lparr>DeleteGracePeriodSeconds = None\<rparr>],
          out := [PrintSuccess ''node'' ''bar'' ''already cordoned'',
                  PrintSuccess ''pod'' ''web-1'' ''deleted'']\<rparr>) \<and>
   RunDrain (exampleOptions ''bar'' True False) =
     (Return (Some (Error ''delete failed'')),
      (exampleOptions ''bar'' True False)
        \<lparr>server := [''delete web-1''],
          requests := [DeleteRequest ''default'' ''web-1'' \<lparr>DeleteGracePeriodSeconds = None\<rparr>,
                       DeleteRequest ''default'' ''stuck'' \<lparr>DeleteGracePeriodSeconds = None\<rparr>],
          out := [PrintSuccess ''node'' ''bar'' ''already cordoned'',
                  PrintSuccess ''pod'' ''web-1'' ''deleted'']\<rparr>)"
proof -
  let ?opts = "(exampleOptions ''bar'' True False)
      \<lparr>out := [PrintSuccess ''node'' ''bar'' ''already cordoned'']\<rparr>"
  let ?opts1 = "?opts\<lparr>server := [''delete web-1''],
      requests := [DeleteRequest ''default'' ''web-1'' \<lparr>DeleteGracePeriodSeconds = None\<rparr>],
      out := [PrintSuccess ''node'' ''bar'' ''already cordoned'',
              PrintSuccess ''pod'' ''web-1'' ''deleted'']\<rparr>"
  have opt: "deleteOptions ?opts = \<lparr>DeleteGracePeriodSeconds = None\<rparr>"
    by (simp add: deleteOptions_def exampleOptions_sel)
  have before: "deletePods ?opts [ownedPod] = (None, ?opts1)"
    by (simp add: exampleOptions_sel example_Delete opt example_names)
  have fail: "Pods_Delete (client ?opts) (server ?opts1) (Namespace stuckPod) (Name stuckPod)
      (deleteOptions ?opts) = (Some (Error ''delete failed''), [''delete web-1''])"
    by (simp add: exampleOptions_sel example_Delete example_names)
  have cordon: "RunCordonOrUncordon True (exampleOptions ''bar'' True False) = (Return None, ?opts)"
    by (rule example_already_cordoned)
  have classify: "getPodsForDeletion ?opts = (([ownedPod] @ stuckPod # [ownedPod], None), ?opts)"
    by (simp add: getPodsForDeletion_def exampleOptions_sel example_List example_isMirror
        example_replicated_any)
  note inst = deletePods_stops_at_first_failure [OF before fail refl, of "[ownedPod]"]
  from inst [THEN conjunct1]
  have 1: "deletePods ?opts [ownedPod, stuckPod, ownedPod] =
     (Some (Error ''delete failed''),
      (exampleOptions ''bar'' True False)
        \<lparr>server := [''delete web-1''],
          requests := [DeleteRequest ''default'' ''web-1'' \<lparr>DeleteGracePeriodSeconds = None\<rparr>,
                       DeleteRequest ''default'' ''stuck'' \<lparr>DeleteGracePeriodSeconds = None\<rparr>],
          out := [PrintSuccess ''node'' ''bar'' ''already cordoned'',
                  PrintSuccess ''pod'' ''web-1'' ''deleted'']\<rparr>)"
    by (simp add: example_names opt)
  from inst [THEN conjunct2, THEN conjunct2, THEN conjunct2, THEN conjunct2, THEN conjunct2,
      THEN conjunct1, rule_format, OF conjI, OF cordon classify]
  have 2: "RunDrain (exampleOptions ''bar'' True False) =
     (Return (Some (Error ''delete failed'')),
      (exampleOptions ''bar'' True False)
        \<lparr>server := [''delete web-1''],
          requests := [DeleteRequest ''default'' ''web-1'' \<lparr>DeleteGracePeriodSeconds = None\<rparr>,
                       DeleteRequest ''default'' ''stuck'' \<lparr>DeleteGracePeriodSeconds = None\<rparr>],
          out := [PrintSuccess ''node'' ''bar'' ''already cordoned'',
                  PrintSuccess ''pod'' ''web-1'' ''deleted'']\<rparr>)"
    by (simp add: example_names opt)
  from 1 2 show ?thesis by blast
qed

end
